theory Spec2Isabelle
  imports Complex_Main "HOL-Library.Multiset"
begin

section \<open>The journal backend (backend/main.py) as a shallow embedding\<close>

text \<open>
  The module is a FastAPI application over two SQL tables (\<open>User\<close>, \<open>JournalEntry\<close>), a
  scratch directory for uploaded audio, and a handful of collaborators it only calls: the
  emotion classifier, the speech transcriber, the Fernet cipher, the password hasher, the
  JWT signer and the date parser. The tables are lists of rows in the order of
  their insertion, the scratch directory is a map from paths to file contents, every
  exception is a value of type \<open>exn\<close>, and the collaborators are the fields of a record
  \<open>env\<close> that every operation receives, so that each theorem holds for whatever the
  collaborators compute.

  Python's \<open>str\<close> is modelled by \<open>string\<close> (code points below 256), Python's \<open>int\<close> by
  \<open>int\<close> or \<open>nat\<close>, and the classifier's floats by \<open>real\<close>: the program only compares
  them and takes their maximum (there is no NaN among the outputs of a sigmoid).
\<close>

subsection \<open>Exceptions\<close>

text \<open>
  \<open>HTTPException(status_code, detail)\<close> carries a detail that is either a string literal of
  the source or \<open>str(e)\<close> of a caught exception \<open>e\<close>, kept symbolic as \<open>Str e\<close>.
\<close>

datatype exn =
    HTTPException nat detail
  | ValueError string
  | OverflowError string
  | FileExistsError string
  | FileNotFoundError string
  | JWTError string
  | ExpiredSignatureError string
  | RuntimeError string
  | OSError string
and detail = Detail string | Str exn


text \<open>The status class of an error as a caller sees it: only an \<open>HTTPException\<close> with a
  4xx status is a client error; anything else ends as a server error.\<close>

fun client_error :: "exn \<Rightarrow> bool" where
  "client_error (HTTPException status_code _) = (400 \<le> status_code \<and> status_code < 500)"
| "client_error _ = False"

subsection \<open>Database models\<close>

record User =
  id_User :: nat
  username :: string
  email :: string
  hashed_password :: string

record UserCreate =
  username' :: string
  email' :: string
  password' :: string

text \<open>A \<open>datetime.date\<close> is its proleptic Gregorian ordinal (\<open>date.toordinal()\<close>), from 1
  for 0001-01-01 to \<open>MAXORDINAL\<close> for 9999-12-31.\<close>

type_synonym date = int

record JournalEntry =
  id_Entry :: nat
  user_id :: nat
  date :: date
  encrypted_content :: string
  emotion_primary :: string
  emotion_score :: real

record state =
  users :: "User list"
  entries :: "JournalEntry list"
  files :: "string \<rightharpoonup> string"

text \<open>The primary key of a new row: one more than the largest key of the table.\<close>

definition next_id :: "nat list \<Rightarrow> nat" where
  "next_id ids = Suc (foldr max ids 0)"

subsection \<open>Session tokens\<close>

record claims =
  sub :: "string option"
  exp :: int


subsection \<open>The collaborators\<close>

record env =
  emotion_model :: "string \<Rightarrow> real list"
    \<comment> \<open>tokenizer, model, sigmoid, squeeze and tolist: the probabilities of a text\<close>
  whisper_model :: "string \<Rightarrow> exn + string option"
    \<comment> \<open>transcribe, on the bytes of the file: an exception, or the result's "text" if any\<close>
  cipher_suite :: "string \<Rightarrow> string"
    \<comment> \<open>Fernet's encrypt, on the encoded text\<close>
  strptime :: "string \<Rightarrow> date option"
    \<comment> \<open>\<open>datetime.strptime(s, "%Y-%m-%d").date()\<close>; \<open>None\<close> where it raises ValueError\<close>
  round_percent :: "real \<Rightarrow> real"
    \<comment> \<open>\<open>round(score * 100, 2)\<close> in floating point\<close>
  pwd_hash :: "string \<Rightarrow> string"
  pwd_verify :: "string \<Rightarrow> string \<Rightarrow> bool"
  jwt_sign :: "string \<Rightarrow> claims \<Rightarrow> string"
    \<comment> \<open>the HS256 signature of a claim set under a key\<close>
  tmpdir :: string
  tmp_names :: "string list"
    \<comment> \<open>the random names \<open>tempfile\<close> draws, in the order it tries them\<close>
  open_raises :: "string \<Rightarrow> string option"
    \<comment> \<open>the message of the OSError that creating a file at a path raises, if it does\<close>
  copy_raises :: "string \<Rightarrow> (string \<times> string) option"
    \<comment> \<open>\<open>shutil.copyfileobj\<close> of an upload: \<open>None\<close> when all its bytes are written, or
        the message of the OSError it raises with the bytes written before\<close>
  remove_raises :: "string \<Rightarrow> bool"
    \<comment> \<open>whether \<open>os.remove\<close> of a path raises\<close>

subsection \<open>Configuration\<close>



definition EMOTION_LABELS :: "(nat \<times> string) list" where
  "EMOTION_LABELS =
    [(0, ''admiration''), (1, ''amusement''), (2, ''anger''), (3, ''annoyance''), (4, ''approval''),
     (5, ''caring''), (6, ''confusion''), (7, ''curiosity''), (8, ''desire''), (9, ''disappointment''),
     (10, ''disapproval''), (11, ''disgust''), (12, ''embarrassment''), (13, ''excitement''), (14, ''fear''),
     (15, ''gratitude''), (16, ''grief''), (17, ''joy''), (18, ''love''), (19, ''nervousness''),
     (20, ''optimism''), (21, ''pride''), (22, ''realization''), (23, ''relief''), (24, ''remorse''),
     (25, ''sadness''), (26, ''surprise''), (27, ''neutral'')]"

text \<open>\<open>d.get(k, default)\<close> on a dictionary written as its list of items.\<close>

definition dict_get :: "('k \<times> 'v) list \<Rightarrow> 'k \<Rightarrow> 'v \<Rightarrow> 'v" where
  "dict_get d k dflt = (case map_of d k of None \<Rightarrow> dflt | Some v \<Rightarrow> v)"

subsection \<open>Authentication helpers\<close>





subsection \<open>Auth endpoints\<close>

text \<open>
  \<open>signup\<close>. The statement is \<open>select(User).where(or_(username == ..., email == ...))\<close>
  with no ORDER BY, and \<open>first()\<close> takes the first row the engine returns. The engine the
  module configures is SQLite, and both columns carry a unique index: it evaluates the
  \<open>OR\<close> one term at a time through these indexes, in the order of the terms, so a row
  with the username comes before a row that has only the email.
\<close>

definition signup :: "env \<Rightarrow> UserCreate \<Rightarrow> state \<Rightarrow> (exn + string) \<times> state" where
  "signup env user_data st =
    (let existing_user =
           (case find (\<lambda>u. username u = username' user_data) (users st) of
              Some u \<Rightarrow> Some u
            | None \<Rightarrow> find (\<lambda>u. email u = email' user_data) (users st));
         new_user = \<lparr>id_User = next_id (map id_User (users st)),
                     username = username' user_data,
                     email = email' user_data,
                     hashed_password = pwd_hash env (password' user_data)\<rparr>;
         created = (Inr ''User created successfully'', st\<lparr>users := users st @ [new_user]\<rparr>)
     in case existing_user of
          None \<Rightarrow> created
        | Some ex \<Rightarrow>
            if username ex = username' user_data
              then (Inl (HTTPException 400 (Detail ''Username already taken'')), st)
            else if email ex = email' user_data
              then (Inl (HTTPException 400 (Detail ''Email already registered'')), st)
            else created)"


subsection \<open>Inference and insight\<close>

text \<open>\<open>max(probs)\<close>: the first largest element; ValueError on the empty list.\<close>

fun py_max :: "real list \<Rightarrow> exn + real" where
  "py_max [] = Inl (ValueError ''max() arg is an empty sequence'')"
| "py_max (x # xs) = Inr (fold (\<lambda>y m. if m < y then y else m) xs x)"

text \<open>\<open>xs.index(v)\<close>: the first position of \<open>v\<close>; ValueError when it does not occur.\<close>

fun py_index :: "real list \<Rightarrow> real \<Rightarrow> exn + nat" where
  "py_index [] v = Inl (ValueError ''x is not in list'')"
| "py_index (x # xs) v =
    (if x = v then Inr 0
     else case py_index xs v of Inl e \<Rightarrow> Inl e | Inr i \<Rightarrow> Inr (Suc i))"

definition insight_logic :: "string \<Rightarrow> string" where
  "insight_logic emotion =
    (let insight = ''Take a moment to breathe.'';
         insight = (if emotion \<in> set [''anger'', ''annoyance'']
           then ''Try the physiological sigh: 2 short inhales, 1 long exhale to reset autonomic nervous system.''
           else insight);
         insight = (if emotion \<in> set [''joy'', ''excitement'', ''optimism'']
           then ''Savoring: Write down 3 specific sensory details about this feeling to strengthen neural pathways.''
           else insight);
         insight = (if emotion \<in> set [''sadness'', ''grief'', ''disappointment'']
           then ''Behavioral Activation: Do one very small, functional task (like washing a cup) to break the inertia.''
           else insight);
         insight = (if emotion \<in> set [''fear'', ''nervousness'']
           then ''Box Breathing: Inhale 4s, Hold 4s, Exhale 4s, Hold 4s to activate the parasympathetic system.''
           else insight)
     in insight)"

subsection \<open>The entry pipeline\<close>

record response =
  emotion :: string
  score :: real
  insight :: string
  history_count :: nat

definition MAXORDINAL :: int where
  "MAXORDINAL = 3652059"

text \<open>\<open>d - datetime.timedelta(days=n)\<close>: OverflowError when the result leaves the range of
  \<open>datetime.date\<close>.\<close>

definition date_minus_days :: "date \<Rightarrow> int \<Rightarrow> exn + date" where
  "date_minus_days d n =
    (let ordinal = d - n
     in if 0 < ordinal \<and> ordinal \<le> MAXORDINAL then Inr ordinal
        else Inl (OverflowError ''date value out of range''))"

text \<open>
  \<open>process_entry_logic\<close>, statement by statement (its parameter \<open>text\<close> is written
  \<open>txt\<close> here). The new row is committed before the
  history query is built, so the state returned with an error raised after the commit
  holds the row.
\<close>

definition process_entry_logic ::
  "env \<Rightarrow> string \<Rightarrow> string \<Rightarrow> User \<Rightarrow> state \<Rightarrow> (exn + response) \<times> state" where
  "process_entry_logic env txt date_str user st =
    (let probs = emotion_model env txt
     in case py_max probs of
          Inl e \<Rightarrow> (Inl e, st)
        | Inr m \<Rightarrow>
     (case py_index probs m of
          Inl e \<Rightarrow> (Inl e, st)
        | Inr max_idx \<Rightarrow>
     (let emotion = dict_get EMOTION_LABELS max_idx ''neutral'';
          score = m;
          encrypted_text = cipher_suite env txt
      in case strptime env date_str of
           None \<Rightarrow> (Inl (ValueError ''time data does not match format''), st)
         | Some entry_date \<Rightarrow>
      (let new_entry = \<lparr>id_Entry = next_id (map id_Entry (entries st)),
                         user_id = id_User user,
                         date = entry_date,
                         encrypted_content = encrypted_text,
                         emotion_primary = emotion,
                         emotion_score = score\<rparr>;
           st' = st\<lparr>entries := entries st @ [new_entry]\<rparr>
       in case date_minus_days entry_date 90 of
            Inl e \<Rightarrow> (Inl e, st')
          | Inr since \<Rightarrow>
       (let history_results =
              filter (\<lambda>e. user_id e = id_User user \<and> date e \<ge> since) (entries st');
            insight = insight_logic emotion
        in (Inr \<lparr>emotion = emotion,
                  score = round_percent env score,
                  insight = insight,
                  history_count = length history_results\<rparr>, st'))))))"

definition analyze_text ::
  "env \<Rightarrow> string \<Rightarrow> string \<Rightarrow> User \<Rightarrow> state \<Rightarrow> (exn + response) \<times> state" where
  "analyze_text env txt date_str current_user st =
    process_entry_logic env txt date_str current_user st"

subsection \<open>Uploaded audio\<close>

record UploadFile =
  filename :: "string option"
  file_bytes :: string

record audio_response = response +
  is_audio :: bool
  transcription :: string

text \<open>\<open>p.rfind(c)\<close>: the last position of \<open>c\<close>, or -1.\<close>

definition rfind :: "string \<Rightarrow> char \<Rightarrow> int" where
  "rfind p c =
    (case filter (\<lambda>i. p ! i = c) (rev [0..<length p]) of
       [] \<Rightarrow> - 1
     | i # _ \<Rightarrow> int i)"

text \<open>The loop of \<open>genericpath._splitext\<close> that skips the leading dots of the file name:
  whether a character other than the dot stands between the two positions.\<close>

function skip_leading_dots :: "string \<Rightarrow> nat \<Rightarrow> nat \<Rightarrow> bool" where
  "skip_leading_dots p filenameIndex dotIndex =
    (if filenameIndex < dotIndex
       then (if p ! filenameIndex \<noteq> CHR ''.'' then True
             else skip_leading_dots p (Suc filenameIndex) dotIndex)
     else False)"
  by pat_completeness auto
termination
  by (relation "measure (\<lambda>(p, filenameIndex, dotIndex). dotIndex - filenameIndex)") auto

definition splitext :: "string \<Rightarrow> string \<times> string" where
  "splitext p =
    (let sepIndex = rfind p CHR ''/'';
         dotIndex = rfind p CHR ''.''
     in if dotIndex > sepIndex \<and> skip_leading_dots p (nat (sepIndex + 1)) (nat dotIndex)
          then (take (nat dotIndex) p, drop (nat dotIndex) p)
        else (p, ''''))"

text \<open>\<open>str.isspace\<close> on one character, and \<open>str.strip()\<close>.\<close>

definition isspace :: "char \<Rightarrow> bool" where
  "isspace c =
    (let n = (of_char c :: nat)
     in (9 \<le> n \<and> n \<le> 13) \<or> (28 \<le> n \<and> n \<le> 32) \<or> n = 133 \<or> n = 160)"

definition strip :: "string \<Rightarrow> string" where
  "strip s = rev (dropWhile isspace (rev (dropWhile isspace s)))"

text \<open>\<open>tempfile.NamedTemporaryFile(delete=False, suffix=...)\<close>: a suffix with a null
  character is a ValueError; otherwise the file is created under the first drawn name
  that is not taken in the directory, an error of the creation itself is raised as it is,
  and FileExistsError is raised when every drawn name is taken.\<close>

definition NamedTemporaryFile :: "env \<Rightarrow> (string \<rightharpoonup> string) \<Rightarrow> string \<Rightarrow> exn + string" where
  "NamedTemporaryFile env fs suffix =
    (if CHR 0x00 \<in> set suffix then Inl (ValueError ''embedded null byte'')
     else case find (\<lambda>p. fs p = None)
                 (map (\<lambda>name. tmpdir env @ ''/tmp'' @ name @ suffix) (tmp_names env)) of
            None \<Rightarrow> Inl (FileExistsError ''No usable temporary file name found'')
          | Some p \<Rightarrow>
              (case open_raises env p of
                 Some msg \<Rightarrow> Inl (OSError msg)
               | None \<Rightarrow> Inr p))"

text \<open>The body of the \<open>try\<close> block of \<open>analyze_audio\<close>.\<close>

definition transcribe_and_process ::
  "env \<Rightarrow> string \<Rightarrow> string \<Rightarrow> User \<Rightarrow> state \<Rightarrow> (exn + audio_response) \<times> state" where
  "transcribe_and_process env tmp_path date_str current_user st =
    (case (case files st tmp_path of
             None \<Rightarrow> Inl (FileNotFoundError tmp_path)
           | Some audio \<Rightarrow> whisper_model env audio) of
       Inl e \<Rightarrow> (Inl e, st)
     | Inr result \<Rightarrow>
         (let transcribed_text = strip (case result of None \<Rightarrow> '''' | Some t \<Rightarrow> t)
          in if transcribed_text = ''''
               then (Inl (HTTPException 400 (Detail ''Could not transcribe audio.'')), st)
             else (case process_entry_logic env transcribed_text date_str current_user st of
                     (Inl e, st') \<Rightarrow> (Inl e, st')
                   | (Inr r, st') \<Rightarrow>
                       (Inr \<lparr>emotion = emotion r, score = score r, insight = insight r,
                              history_count = history_count r,
                              is_audio = True, transcription = transcribed_text\<rparr>, st'))))"

text \<open>The \<open>finally\<close> block: remove the file if it exists; an exception of the removal is
  passed over.\<close>

definition cleanup :: "env \<Rightarrow> string \<Rightarrow> state \<Rightarrow> state" where
  "cleanup env tmp_path st =
    (if files st tmp_path \<noteq> None
       then (if remove_raises env tmp_path then st
             else st\<lparr>files := (files st)(tmp_path := None)\<rparr>)
     else st)"

text \<open>The suffix of the temporary file: the extension of the upload's file name, with
  "recording.webm" standing in for a missing or empty name and ".webm" for a missing
  extension.\<close>

definition upload_suffix :: "UploadFile \<Rightarrow> string" where
  "upload_suffix upload =
    (let fname = (case filename upload of
                    None \<Rightarrow> ''recording.webm''
                  | Some f \<Rightarrow> if f = '''' then ''recording.webm'' else f);
         file_ext = (if snd (splitext fname) = '''' then ''.webm'' else snd (splitext fname))
     in file_ext)"

text \<open>
  \<open>analyze_audio\<close>. The \<open>with\<close> block that creates the file and copies the upload into it
  stands before the \<open>try\<close> statement: an exception of the creation or of the copy leaves
  the function as it is, and after a failed copy the file, created with \<open>delete=False\<close>,
  stays with the bytes written so far. An exception of the \<open>try\<close> block leaves as an
  \<open>HTTPException\<close> with status 500, and the \<open>finally\<close> block runs on every way out of
  the \<open>try\<close> block.
\<close>

definition analyze_audio ::
  "env \<Rightarrow> UploadFile \<Rightarrow> string \<Rightarrow> User \<Rightarrow> state \<Rightarrow> (exn + audio_response) \<times> state" where
  "analyze_audio env upload date_str current_user st =
    (let file_ext = upload_suffix upload
     in case NamedTemporaryFile env (files st) file_ext of
          Inl e \<Rightarrow> (Inl e, st)
        | Inr tmp_path \<Rightarrow>
            (case copy_raises env (file_bytes upload) of
               Some (msg, written) \<Rightarrow>
                 (Inl (OSError msg), st\<lparr>files := (files st)(tmp_path \<mapsto> written)\<rparr>)
             | None \<Rightarrow>
                 (let st1 = st\<lparr>files := (files st)(tmp_path \<mapsto> file_bytes upload)\<rparr>;
                      (r, st2) = transcribe_and_process env tmp_path date_str current_user st1;
                      r' = (case r of
                              Inl e \<Rightarrow> Inl (HTTPException 500 (Str e))
                            | Inr v \<Rightarrow> Inr v)
                  in (r', cleanup env tmp_path st2))))"

subsection \<open>History\<close>

definition get_history :: "User \<Rightarrow> state \<Rightarrow> (date \<times> string) list \<times> state" where
  "get_history current_user st =
    (let entries' = sort_key date (filter (\<lambda>e. user_id e = id_User current_user) (entries st));
         data = map (\<lambda>e. (date e, emotion_primary e)) entries'
     in (data, st))"

subsection \<open>The four checks of the insight logic as a table\<close>

text \<open>The four \<open>if\<close> statements of the source, in its order: the labels tested and the
  advice assigned. \<open>apply_rules\<close> runs any list of such checks one after the other, each
  overwriting the advice when its group holds the emotion.\<close>

definition insight_rules :: "(string list \<times> string) list" where
  "insight_rules =
    [([''anger'', ''annoyance''],
      ''Try the physiological sigh: 2 short inhales, 1 long exhale to reset autonomic nervous system.''),
     ([''joy'', ''excitement'', ''optimism''],
      ''Savoring: Write down 3 specific sensory details about this feeling to strengthen neural pathways.''),
     ([''sadness'', ''grief'', ''disappointment''],
      ''Behavioral Activation: Do one very small, functional task (like washing a cup) to break the inertia.''),
     ([''fear'', ''nervousness''],
      ''Box Breathing: Inhale 4s, Hold 4s, Exhale 4s, Hold 4s to activate the parasympathetic system.'')]"

definition apply_rules :: "(string list \<times> string) list \<Rightarrow> string \<Rightarrow> string" where
  "apply_rules rules e =
    fold (\<lambda>rule ins. if e \<in> set (fst rule) then snd rule else ins) rules
      ''Take a moment to breathe.''"

subsection \<open>The date parser on ASCII input\<close>

text \<open>
  \<open>datetime.strptime(s, "%Y-%m-%d").date()\<close> of the standard library, for the example
  environment below. The format compiles to the regular expression
  \<open>(\d\d\d\d)-(1[0-2]|0[1-9]|[1-9])-(3[01]|[12]\d|0[1-9]|[1-9]| [1-9])\<close>, matched at the
  start of the string; data left after the match, year 0 and a day beyond the month's
  length are ValueErrors.
\<close>

definition isdigit :: "char \<Rightarrow> bool" where
  "isdigit c = (48 \<le> (of_char c :: nat) \<and> (of_char c :: nat) \<le> 57)"

definition digit :: "char \<Rightarrow> int" where
  "digit c = int (of_char c) - 48"

fun match_Y :: "string \<Rightarrow> (int \<times> string) option" where
  "match_Y (a # b # c # d # s) =
    (if isdigit a \<and> isdigit b \<and> isdigit c \<and> isdigit d
       then Some (digit a * 1000 + digit b * 100 + digit c * 10 + digit d, s)
     else None)"
| "match_Y _ = None"

fun match_m :: "string \<Rightarrow> (int \<times> string) option" where
  "match_m [] = None"
| "match_m [a] = (if a \<in> set ''123456789'' then Some (digit a, []) else None)"
| "match_m (a # b # s) =
    (if a = CHR ''1'' \<and> b \<in> set ''012'' then Some (10 + digit b, s)
     else if a = CHR ''0'' \<and> b \<in> set ''123456789'' then Some (digit b, s)
     else if a \<in> set ''123456789'' then Some (digit a, b # s)
     else None)"

fun match_d :: "string \<Rightarrow> (int \<times> string) option" where
  "match_d [] = None"
| "match_d [a] = (if a \<in> set ''123456789'' then Some (digit a, []) else None)"
| "match_d (a # b # s) =
    (if a = CHR ''3'' \<and> b \<in> set ''01'' then Some (30 + digit b, s)
     else if a \<in> set ''12'' \<and> isdigit b then Some (digit a * 10 + digit b, s)
     else if a = CHR ''0'' \<and> b \<in> set ''123456789'' then Some (digit b, s)
     else if a \<in> set ''123456789'' then Some (digit a, b # s)
     else if a = CHR '' '' \<and> b \<in> set ''123456789'' then Some (digit b, s)
     else None)"

fun match_dash :: "string \<Rightarrow> string option" where
  "match_dash (a # s) = (if a = CHR ''-'' then Some s else None)"
| "match_dash [] = None"

definition is_leap :: "int \<Rightarrow> bool" where
  "is_leap year = (year mod 4 = 0 \<and> (year mod 100 \<noteq> 0 \<or> year mod 400 = 0))"

definition days_before_year :: "int \<Rightarrow> int" where
  "days_before_year year =
    (let y = year - 1 in y * 365 + y div 4 - y div 100 + y div 400)"

definition days_in_month :: "int \<Rightarrow> int \<Rightarrow> int" where
  "days_in_month year month =
    (if month = 2 \<and> is_leap year then 29
     else [31, 28, 31, 30, 31, 30, 31, 31, 30, 31, 30, 31] ! nat (month - 1))"

definition days_before_month :: "int \<Rightarrow> int \<Rightarrow> int" where
  "days_before_month year month =
    [0, 31, 59, 90, 120, 151, 181, 212, 243, 273, 304, 334] ! nat (month - 1)
      + (if month > 2 \<and> is_leap year then 1 else 0)"

definition ymd2ord :: "int \<Rightarrow> int \<Rightarrow> int \<Rightarrow> int" where
  "ymd2ord year month day = days_before_year year + days_before_month year month + day"

definition strptime_ymd :: "string \<Rightarrow> date option" where
  "strptime_ymd s =
    (case match_Y s of None \<Rightarrow> None | Some (year, s1) \<Rightarrow>
     (case match_dash s1 of None \<Rightarrow> None | Some s2 \<Rightarrow>
     (case match_m s2 of None \<Rightarrow> None | Some (month, s3) \<Rightarrow>
     (case match_dash s3 of None \<Rightarrow> None | Some s4 \<Rightarrow>
     (case match_d s4 of None \<Rightarrow> None | Some (day, s5) \<Rightarrow>
        if s5 \<noteq> [] then None
        else if year < 1 then None
        else if day > days_in_month year month then None
        else Some (ymd2ord year month day))))))"

subsection \<open>An example environment\<close>

text \<open>
  Stand-ins for the collaborators, for running the operations on concrete requests: a
  classifier with fixed outputs (the second one has its largest value twice, the third
  one has it beyond the label table), a transcriber that returns the bytes of the file as
  its text and fails on one input, a disk that is full for one upload, a cipher, a
  hasher and a signer that only rearrange their input.
\<close>

function show_nat :: "nat \<Rightarrow> string" where
  "show_nat n =
    (if n < 10 then [''0123456789'' ! n]
     else show_nat (n div 10) @ [''0123456789'' ! (n mod 10)])"
  by pat_completeness auto
termination
  by (relation "measure (\<lambda>n. n)") auto

definition example_classifier :: "string \<Rightarrow> real list" where
  "example_classifier t =
    (if t = ''I am so angry today'' then [0.02, 0.05, 0.87, 0.4] @ replicate 24 0.01
     else if t = ''so so'' then [0.1, 0.6, 0.2, 0.6] @ replicate 24 0.1
     else if t = ''beyond the table'' then replicate 28 0.1 @ [0.3, 0.9]
     else if t = ''no output'' then []
     else replicate 27 0.05 @ [0.5])"

definition example_env :: env where
  "example_env =
    \<lparr>emotion_model = example_classifier,
     whisper_model = (\<lambda>audio. if audio = ''noise'' then Inl (RuntimeError ''Failed to load audio'')
                                else Inr (Some audio)),
     cipher_suite = rev,
     strptime = strptime_ymd,
     round_percent = (\<lambda>x. of_int (round (x * 10000)) / 100),
     pwd_hash = (\<lambda>p. ''$2b$'' @ p),
     pwd_verify = (\<lambda>p h. h = ''$2b$'' @ p),
     jwt_sign = (\<lambda>key c. key @ ''.'' @ (case sub c of None \<Rightarrow> '''' | Some s \<Rightarrow> s)
                              @ ''.'' @ show_nat (nat (exp c))),
     tmpdir = ''/tmp'',
     tmp_names = [''a1b2c3d4'', ''e5f6g7h8''],
     open_raises = (\<lambda>p. None),
     copy_raises = (\<lambda>b. if b = ''a long recording''
                           then Some (''[Errno 28] No space left on device'', ''a long'')
                         else None),
     remove_raises = (\<lambda>p. False)\<rparr>"

definition alice :: User where
  "alice = \<lparr>id_User = 1, username = ''alice'', email = ''alice@example.org'',
            hashed_password = ''$2b$wonderland''\<rparr>"

definition bob :: User where
  "bob = \<lparr>id_User = 2, username = ''bob'', email = ''bob@example.org'',
          hashed_password = ''$2b$builder''\<rparr>"

definition example_entry :: JournalEntry where
  "example_entry = \<lparr>id_Entry = 1, user_id = 2, date = 738800,
                    encrypted_content = ''yad doog'', emotion_primary = ''joy'',
                    emotion_score = 0.7\<rparr>"

definition example_state :: state where
  "example_state = \<lparr>users = [alice, bob], entries = [example_entry], files = Map.empty\<rparr>"

definition example_history :: state where
  "example_history =
    \<lparr>users = [alice, bob],
     entries =
       [\<lparr>id_Entry = 1, user_id = 1, date = 738850, encrypted_content = ''krap eht ni klaw'',
          emotion_primary = ''joy'', emotion_score = 0.8\<rparr>,
        \<lparr>id_Entry = 2, user_id = 2, date = 738800, encrypted_content = ''niaga etal'',
          emotion_primary = ''anger'', emotion_score = 0.6\<rparr>,
        \<lparr>id_Entry = 3, user_id = 1, date = 738700, encrypted_content = ''worromot maxe'',
          emotion_primary = ''fear'', emotion_score = 0.9\<rparr>],
     files = Map.empty\<rparr>"

section \<open>Properties\<close>

subsection \<open>Inference: the chosen label and the stored score\<close>

lemma fold_first_max: "fold (\<lambda>y m. if m < y then y else m) xs (x::real) = Max (set (x # xs))"
proof -
  have "(\<lambda>y m. if m < y then y else m) = (max :: real \<Rightarrow> real \<Rightarrow> real)"
    by (auto simp: fun_eq_iff max_def)
  then show ?thesis using Max.set_eq_fold[of x xs] by simp
qed

lemma py_max_Max: "xs \<noteq> [] \<Longrightarrow> py_max xs = Inr (Max (set xs))"
  by (cases xs) (simp_all add: fold_first_max del: fold_simps set_simps)

lemma py_index_first:
  "v \<in> set xs \<Longrightarrow> \<exists>i. py_index xs v = Inr i \<and> i < length xs \<and> xs ! i = v \<and> (\<forall>j<i. xs ! j \<noteq> v)"
proof (induction xs)
  case Nil
  then show ?case by simp
next
  case (Cons x xs)
  show ?case
  proof (cases "x = v")
    case True
    then show ?thesis by simp
  next
    case False
    with Cons.prems have "v \<in> set xs" by simp
    from Cons.IH[OF this] obtain i where
      i: "py_index xs v = Inr i" "i < length xs" "xs ! i = v" "\<forall>j<i. xs ! j \<noteq> v" by blast
    have "\<forall>j<Suc i. (x # xs) ! j \<noteq> v"
      using False i(4) by (auto simp: nth_Cons split: nat.splits)
    with False i show ?thesis by simp
  qed
qed

lemma dict_get_labels:
  "dict_get EMOTION_LABELS i ''neutral'' =
     (if i < length EMOTION_LABELS then snd (EMOTION_LABELS ! i) else ''neutral'')"
proof -
  have m: "map fst EMOTION_LABELS = [0..<28]" unfolding EMOTION_LABELS_def by (simp add: upt_rec)
  have l: "length EMOTION_LABELS = 28" unfolding EMOTION_LABELS_def by simp
  show ?thesis
  proof (cases "i < 28")
    case True
    have d: "distinct (map fst EMOTION_LABELS)" using m by simp
    have "EMOTION_LABELS ! i \<in> set EMOTION_LABELS" using True l by simp
    moreover have "fst (EMOTION_LABELS ! i) = i"
      using True l m by (metis nth_map nth_upt add_0 )
    ultimately have "map_of EMOTION_LABELS i = Some (snd (EMOTION_LABELS ! i))"
      using d by (metis map_of_is_SomeI prod.collapse)
    then show ?thesis using True l by (simp add: dict_get_def)
  next
    case False
    then have "i \<notin> set (map fst EMOTION_LABELS)" using m by simp
    then have "map_of EMOTION_LABELS i = None" by (simp add: map_of_eq_None_iff)
    then show ?thesis using False l by (simp add: dict_get_def)
  qed
qed


lemma process_entry_logic_eq:
  assumes "py_max (emotion_model env txt) = Inr m"
    and "py_index (emotion_model env txt) m = Inr i"
    and "strptime env date_str = Some d"
  shows "process_entry_logic env txt date_str user st =
    (let lbl = dict_get EMOTION_LABELS i ''neutral'';
         st' = st\<lparr>entries := entries st @
                 [\<lparr>id_Entry = next_id (map id_Entry (entries st)), user_id = id_User user,
                   date = d, encrypted_content = cipher_suite env txt,
                   emotion_primary = lbl, emotion_score = m\<rparr>]\<rparr>
     in if 0 < d - 90 \<and> d - 90 \<le> MAXORDINAL
          then (Inr \<lparr>emotion = lbl, score = round_percent env m, insight = insight_logic lbl,
                     history_count = length (filter (\<lambda>e. user_id e = id_User user \<and> d - 90 \<le> date e)
                                               (entries st'))\<rparr>, st')
        else (Inl (OverflowError ''date value out of range''), st'))"
  using assms by (simp add: process_entry_logic_def Let_def date_minus_days_def)

text \<open>
  Claim C3. For a non-empty probability vector (and a date that parses, so that a row is
  stored), the emotion is the label of the first position holding the maximum: every
  earlier position is strictly smaller. A position outside the 28 entries of the label
  table gives "neutral", and the lookup raises nothing: the only error left to the call is
  the one of the date arithmetic. The stored \<open>emotion_score\<close> is the maximum of the vector.
\<close>

theorem emotion_is_first_argmax:
  assumes "emotion_model env txt = probs" and "probs \<noteq> []"
    and "strptime env date_str = Some d"
  shows "\<exists>i e. i < length probs \<and> probs ! i = Max (set probs)
           \<and> (\<forall>j<i. probs ! j < Max (set probs))
           \<and> entries (snd (process_entry_logic env txt date_str user st)) = entries st @ [e]
           \<and> emotion_primary e =
               (if i < length EMOTION_LABELS then snd (EMOTION_LABELS ! i) else ''neutral'')
           \<and> emotion_score e = Max (set probs)
           \<and> (case fst (process_entry_logic env txt date_str user st) of
                 Inr r \<Rightarrow> emotion r = emotion_primary e
               | Inl err \<Rightarrow> err = OverflowError ''date value out of range'')"
proof -
  let ?M = "Max (set probs)"
  have m: "py_max (emotion_model env txt) = Inr ?M"
    using assms(1,2) py_max_Max by simp
  have "?M \<in> set probs" using assms(2) by simp
  from py_index_first[OF this] obtain i where
    i: "py_index probs ?M = Inr i" "i < length probs" "probs ! i = ?M" "\<forall>j<i. probs ! j \<noteq> ?M"
    by blast
  have lt: "\<forall>j<i. probs ! j < ?M"
  proof (intro allI impI)
    fix j assume j: "j < i"
    then have "probs ! j \<in> set probs" using i(2) by simp
    then have "probs ! j \<le> ?M" by simp
    moreover have "probs ! j \<noteq> ?M" using i(4) j by simp
    ultimately show "probs ! j < ?M" by simp
  qed
  have i': "py_index (emotion_model env txt) ?M = Inr i" using i(1) assms(1) by simp
  note eq = process_entry_logic_eq[OF m i' assms(3), of user st]
  let ?e = "\<lparr>id_Entry = next_id (map id_Entry (entries st)), user_id = id_User user,
              date = d, encrypted_content = cipher_suite env txt,
              emotion_primary = dict_get EMOTION_LABELS i ''neutral'', emotion_score = ?M\<rparr>"
  have "entries (snd (process_entry_logic env txt date_str user st)) = entries st @ [?e]"
    by (simp add: eq Let_def)
  moreover have "emotion_primary ?e =
      (if i < length EMOTION_LABELS then snd (EMOTION_LABELS ! i) else ''neutral'')"
    by (simp only: JournalEntry.simps dict_get_labels)
  moreover have "emotion_score ?e = ?M" by simp
  moreover have "(case fst (process_entry_logic env txt date_str user st) of
                 Inr r \<Rightarrow> emotion r = emotion_primary ?e
               | Inl err \<Rightarrow> err = OverflowError ''date value out of range'')"
    by (simp add: eq Let_def)
  ultimately show ?thesis using i(2,3) lt by blast
qed

theorem emotion_is_first_argmax_witness:
  "emotion_model example_env ''so so'' = [0.1, 0.6, 0.2, 0.6] @ replicate 24 0.1
   \<and> [0.1, 0.6, 0.2, 0.6] @ replicate 24 (0.1::real) \<noteq> []
   \<and> strptime example_env ''2024-01-15'' = Some 738900
   \<and> (\<exists>i e. i < length ([0.1, 0.6, 0.2, 0.6] @ replicate 24 (0.1::real))
           \<and> ([0.1, 0.6, 0.2, 0.6] @ replicate 24 (0.1::real)) ! i
               = Max (set ([0.1, 0.6, 0.2, 0.6] @ replicate 24 (0.1::real)))
           \<and> (\<forall>j<i. ([0.1, 0.6, 0.2, 0.6] @ replicate 24 (0.1::real)) ! j
                        < Max (set ([0.1, 0.6, 0.2, 0.6] @ replicate 24 (0.1::real))))
           \<and> entries (snd (process_entry_logic example_env ''so so'' ''2024-01-15'' alice example_state))
               = entries example_state @ [e]
           \<and> emotion_primary e =
               (if i < length EMOTION_LABELS then snd (EMOTION_LABELS ! i) else ''neutral'')
           \<and> emotion_score e = Max (set ([0.1, 0.6, 0.2, 0.6] @ replicate 24 (0.1::real)))
           \<and> (case fst (process_entry_logic example_env ''so so'' ''2024-01-15'' alice example_state) of
                 Inr r \<Rightarrow> emotion r = emotion_primary e
               | Inl err \<Rightarrow> err = OverflowError ''date value out of range''))"
proof -
  have h1: "emotion_model example_env ''so so'' = [0.1, 0.6, 0.2, 0.6] @ replicate 24 0.1"
    by (simp add: example_env_def example_classifier_def)
  have h2: "[0.1, 0.6, 0.2, 0.6] @ replicate 24 (0.1::real) \<noteq> []" by simp
  have h3: "strptime example_env ''2024-01-15'' = Some 738900"
    unfolding example_env_def by code_simp
  from emotion_is_first_argmax[OF h1 h2 h3, of alice example_state] h1 h2 h3
  show ?thesis by blast
qed

lemma first_of_two_maxima_example:
  "emotion_primary (last (entries (snd (process_entry_logic example_env ''so so'' ''2024-01-15'' alice example_state)))) = ''amusement''"
  by code_simp

lemma beyond_the_table_example:
  "emotion_primary (last (entries (snd (process_entry_logic example_env ''beyond the table'' ''2024-01-15'' alice example_state)))) = ''neutral''"
  by code_simp

subsection \<open>The insight logic\<close>

lemma insight_logic_apply_rules: "insight_logic e = apply_rules insight_rules e"
  by (simp add: insight_logic_def apply_rules_def insight_rules_def Let_def)

lemma fold_rules_same:
  "\<forall>r\<in>set rules. e \<in> set (fst r) \<longrightarrow> snd r = a \<Longrightarrow>
   fold (\<lambda>rule ins. if e \<in> set (fst rule) then snd rule else ins) rules a = a"
  by (induction rules) auto

lemma fold_rules_none:
  "\<forall>r\<in>set rules. e \<notin> set (fst r) \<Longrightarrow>
   fold (\<lambda>rule ins. if e \<in> set (fst rule) then snd rule else ins) rules d = d"
  by (induction rules) auto

lemma fold_rules_match:
  assumes "\<forall>r\<in>set rules. \<forall>r'\<in>set rules. r \<noteq> r' \<longrightarrow> set (fst r) \<inter> set (fst r') = {}"
    and "r \<in> set rules" and "e \<in> set (fst r)"
  shows "fold (\<lambda>rule ins. if e \<in> set (fst rule) then snd rule else ins) rules d = snd r"
  using assms
proof (induction rules arbitrary: d)
  case Nil
  then show ?case by simp
next
  case (Cons x rules)
  have only: "\<forall>r'\<in>set (x # rules). e \<in> set (fst r') \<longrightarrow> r' = r"
    using Cons.prems by (metis disjoint_iff)
  show ?case
  proof (cases "r \<in> set rules")
    case True
    have "\<forall>r\<in>set rules. \<forall>r'\<in>set rules. r \<noteq> r' \<longrightarrow> set (fst r) \<inter> set (fst r') = {}"
      using Cons.prems(1) by simp
    from Cons.IH[OF this True Cons.prems(3)] show ?thesis by simp
  next
    case False
    then have x: "x = r" using Cons.prems(2) by simp
    have "\<forall>r'\<in>set rules. e \<notin> set (fst r')" using only False by auto
    from fold_rules_none[OF this] show ?thesis using x Cons.prems(3) by simp
  qed
qed

lemma apply_rules_set:
  assumes "\<forall>r\<in>set rules. \<forall>r'\<in>set rules. r \<noteq> r' \<longrightarrow> set (fst r) \<inter> set (fst r') = {}"
    and "set rules' = set rules"
  shows "apply_rules rules' e = apply_rules rules e"
proof (cases "\<exists>r\<in>set rules. e \<in> set (fst r)")
  case True
  then obtain r where r: "r \<in> set rules" "e \<in> set (fst r)" by blast
  have d': "\<forall>r\<in>set rules'. \<forall>r'\<in>set rules'. r \<noteq> r' \<longrightarrow> set (fst r) \<inter> set (fst r') = {}"
    using assms by simp
  have r': "r \<in> set rules'" using r(1) assms(2) by simp
  show ?thesis
    unfolding apply_rules_def
    using fold_rules_match[OF assms(1) r] fold_rules_match[OF d' r' r(2)] by simp
next
  case False
  then have n: "\<forall>r\<in>set rules. e \<notin> set (fst r)" by blast
  then have n': "\<forall>r\<in>set rules'. e \<notin> set (fst r)" using assms(2) by simp
  show ?thesis
    unfolding apply_rules_def using fold_rules_none[OF n] fold_rules_none[OF n'] by simp
qed

lemma insight_rules_disjoint:
  "\<forall>r\<in>set insight_rules. \<forall>r'\<in>set insight_rules. r \<noteq> r' \<longrightarrow> set (fst r) \<inter> set (fst r') = {}"
  by (simp add: insight_rules_def)

text \<open>
  Claim C4. The insight is a function of the emotion alone: the four groups give their
  four strings, every other string (every other label, "neutral" among them) gives
  "Take a moment to breathe."; no label stands in two groups, none of them is "neutral",
  and running the four checks in any other order gives the same insight.
\<close>

theorem insight_total_and_order_free:
  "insight_logic e =
     (if e \<in> {''anger'', ''annoyance''}
        then ''Try the physiological sigh: 2 short inhales, 1 long exhale to reset autonomic nervous system.''
      else if e \<in> {''joy'', ''excitement'', ''optimism''}
        then ''Savoring: Write down 3 specific sensory details about this feeling to strengthen neural pathways.''
      else if e \<in> {''sadness'', ''grief'', ''disappointment''}
        then ''Behavioral Activation: Do one very small, functional task (like washing a cup) to break the inertia.''
      else if e \<in> {''fear'', ''nervousness''}
        then ''Box Breathing: Inhale 4s, Hold 4s, Exhale 4s, Hold 4s to activate the parasympathetic system.''
      else ''Take a moment to breathe.'')
   \<and> insight_logic ''neutral'' = ''Take a moment to breathe.''
   \<and> distinct (concat (map fst insight_rules))
   \<and> ''neutral'' \<notin> set (concat (map fst insight_rules))
   \<and> set (concat (map fst insight_rules)) \<subseteq> snd ` set EMOTION_LABELS
   \<and> (\<forall>rules. mset rules = mset insight_rules \<longrightarrow> apply_rules rules e = insight_logic e)"
proof -
  have 1: "insight_logic e =
     (if e \<in> {''anger'', ''annoyance''}
        then ''Try the physiological sigh: 2 short inhales, 1 long exhale to reset autonomic nervous system.''
      else if e \<in> {''joy'', ''excitement'', ''optimism''}
        then ''Savoring: Write down 3 specific sensory details about this feeling to strengthen neural pathways.''
      else if e \<in> {''sadness'', ''grief'', ''disappointment''}
        then ''Behavioral Activation: Do one very small, functional task (like washing a cup) to break the inertia.''
      else if e \<in> {''fear'', ''nervousness''}
        then ''Box Breathing: Inhale 4s, Hold 4s, Exhale 4s, Hold 4s to activate the parasympathetic system.''
      else ''Take a moment to breathe.'')"
    by (auto simp add: insight_logic_def Let_def)
  have 2: "insight_logic ''neutral'' = ''Take a moment to breathe.''"
    by (simp add: insight_logic_def Let_def)
  have 3: "distinct (concat (map fst insight_rules))"
    by (simp add: insight_rules_def)
  have 4: "''neutral'' \<notin> set (concat (map fst insight_rules))"
    by (simp add: insight_rules_def)
  have 5: "set (concat (map fst insight_rules)) \<subseteq> snd ` set EMOTION_LABELS"
    by (simp add: insight_rules_def EMOTION_LABELS_def)
  have 6: "\<forall>rules. mset rules = mset insight_rules \<longrightarrow> apply_rules rules e = insight_logic e"
  proof (intro allI impI)
    fix rules assume "mset rules = mset insight_rules"
    then have "set rules = set insight_rules" by (rule mset_eq_setD)
    from apply_rules_set[OF insight_rules_disjoint this]
    show "apply_rules rules e = insight_logic e" by (simp add: insight_logic_apply_rules)
  qed
  from 1 2 3 4 5 6 show ?thesis by blast
qed

theorem insight_total_and_order_free_witness:
  "insight_logic ''grief'' =
      ''Behavioral Activation: Do one very small, functional task (like washing a cup) to break the inertia.''
   \<and> mset (rev insight_rules) = mset insight_rules
   \<and> apply_rules (rev insight_rules) ''grief'' = insight_logic ''grief''"
proof -
  have m: "mset (rev insight_rules) = mset insight_rules" by simp
  from insight_total_and_order_free[of "''grief''"] m show ?thesis by simp
qed

subsection \<open>The text path\<close>

text \<open>
  Claim C10. The text path tests nothing about the text: for every text, the empty and
  the blank ones included, for which the classifier returns its vector, with a date that
  parses and lies more than 90 days after the first day \<open>datetime.date\<close> can hold, the
  classifier runs, one row with the encrypted text is stored for the caller and a result
  is returned. The one test for an empty text is the one of the audio path, on the
  transcription, in the body of its \<open>try\<close> block.
\<close>

theorem analyze_text_takes_any_text:
  assumes "emotion_model env txt \<noteq> []" and "strptime env date_str = Some d"
    and "90 < d" and "d \<le> MAXORDINAL + 90"
  shows "(\<exists>r e. analyze_text env txt date_str user st
                  = (Inr r, st\<lparr>entries := entries st @ [e]\<rparr>)
            \<and> user_id e = id_User user \<and> date e = d
            \<and> encrypted_content e = cipher_suite env txt
            \<and> emotion_primary e = emotion r
            \<and> emotion_score e = Max (set (emotion_model env txt)))
       \<and> (\<forall>p audio t. files st p = Some audio \<longrightarrow> whisper_model env audio = Inr (Some t)
              \<longrightarrow> strip t = ''''
              \<longrightarrow> transcribe_and_process env p date_str user st
                    = (Inl (HTTPException 400 (Detail ''Could not transcribe audio.'')), st))"
proof -
  let ?M = "Max (set (emotion_model env txt))"
  have m: "py_max (emotion_model env txt) = Inr ?M"
    using assms(1) by (rule py_max_Max)
  have "?M \<in> set (emotion_model env txt)" using assms(1) by simp
  from py_index_first[OF this] obtain i where
    i: "py_index (emotion_model env txt) ?M = Inr i" by blast
  let ?e = "\<lparr>id_Entry = next_id (map id_Entry (entries st)), user_id = id_User user,
              date = d, encrypted_content = cipher_suite env txt,
              emotion_primary = dict_get EMOTION_LABELS i ''neutral'', emotion_score = ?M\<rparr>"
  let ?r = "\<lparr>emotion = dict_get EMOTION_LABELS i ''neutral'', score = round_percent env ?M,
              insight = insight_logic (dict_get EMOTION_LABELS i ''neutral''),
              history_count = length (filter (\<lambda>x. user_id x = id_User user \<and> d - 90 \<le> date x)
                                        (entries st @ [?e]))\<rparr>"
  have "analyze_text env txt date_str user st = (Inr ?r, st\<lparr>entries := entries st @ [?e]\<rparr>)"
    unfolding analyze_text_def
    using assms(3,4) by (simp add: process_entry_logic_eq[OF m i assms(2)] Let_def)
  moreover have "user_id ?e = id_User user \<and> date ?e = d
           \<and> encrypted_content ?e = cipher_suite env txt
           \<and> emotion_primary ?e = emotion ?r \<and> emotion_score ?e = ?M"
    by simp
  ultimately have a: "\<exists>r e. analyze_text env txt date_str user st
                  = (Inr r, st\<lparr>entries := entries st @ [e]\<rparr>)
            \<and> user_id e = id_User user \<and> date e = d
            \<and> encrypted_content e = cipher_suite env txt
            \<and> emotion_primary e = emotion r
            \<and> emotion_score e = Max (set (emotion_model env txt))"
    by blast
  have b: "\<forall>p audio t. files st p = Some audio \<longrightarrow> whisper_model env audio = Inr (Some t)
              \<longrightarrow> strip t = ''''
              \<longrightarrow> transcribe_and_process env p date_str user st
                    = (Inl (HTTPException 400 (Detail ''Could not transcribe audio.'')), st)"
    by (simp add: transcribe_and_process_def)
  from a b show ?thesis by blast
qed

theorem analyze_text_takes_any_text_witness:
  "emotion_model example_env '''' \<noteq> [] \<and> strptime example_env ''2024-01-15'' = Some 738900
   \<and> (90::int) < 738900 \<and> 738900 \<le> MAXORDINAL + 90
   \<and> (\<exists>r e. analyze_text example_env '''' ''2024-01-15'' alice
                  (example_state\<lparr>files := [''/tmp/tmpa1b2c3d4.webm'' \<mapsto> ''   '']\<rparr>)
                  = (Inr r, example_state\<lparr>files := [''/tmp/tmpa1b2c3d4.webm'' \<mapsto> ''   '']\<rparr>
                              \<lparr>entries := entries (example_state\<lparr>files := [''/tmp/tmpa1b2c3d4.webm'' \<mapsto> ''   '']\<rparr>)
                                           @ [e]\<rparr>)
            \<and> user_id e = id_User alice \<and> date e = 738900
            \<and> encrypted_content e = cipher_suite example_env ''''
            \<and> emotion_primary e = emotion r
            \<and> emotion_score e = Max (set (emotion_model example_env '''')))
   \<and> files (example_state\<lparr>files := [''/tmp/tmpa1b2c3d4.webm'' \<mapsto> ''   '']\<rparr>) ''/tmp/tmpa1b2c3d4.webm''
       = Some ''   ''
   \<and> whisper_model example_env ''   '' = Inr (Some ''   '')
   \<and> strip ''   '' = ''''
   \<and> transcribe_and_process example_env ''/tmp/tmpa1b2c3d4.webm'' ''2024-01-15'' alice
         (example_state\<lparr>files := [''/tmp/tmpa1b2c3d4.webm'' \<mapsto> ''   '']\<rparr>)
       = (Inl (HTTPException 400 (Detail ''Could not transcribe audio.'')),
          example_state\<lparr>files := [''/tmp/tmpa1b2c3d4.webm'' \<mapsto> ''   '']\<rparr>)"
proof -
  let ?st = "example_state\<lparr>files := [''/tmp/tmpa1b2c3d4.webm'' \<mapsto> ''   '']\<rparr>"
  have h1: "emotion_model example_env '''' \<noteq> []"
    by (simp add: example_env_def example_classifier_def)
  have h2: "strptime example_env ''2024-01-15'' = Some 738900"
    unfolding example_env_def by code_simp
  have h3: "(90::int) < 738900" by simp
  have h4: "738900 \<le> MAXORDINAL + 90" by (simp add: MAXORDINAL_def)
  have f: "files ?st ''/tmp/tmpa1b2c3d4.webm'' = Some ''   ''" by simp
  have w: "whisper_model example_env ''   '' = Inr (Some ''   '')"
    by (simp add: example_env_def)
  have s: "strip ''   '' = ''''" by code_simp
  from analyze_text_takes_any_text[OF h1 h2 h3 h4, of alice ?st] h1 h2 h3 h4 f w s
  show ?thesis by blast
qed

lemma analyze_text_blank_example:
  "fst (analyze_text example_env ''   '' ''2024-01-15'' alice example_state)
     = Inr \<lparr>emotion = ''neutral'', score = 50, insight = ''Take a moment to breathe.'',
            history_count = 1\<rparr>
   \<and> map encrypted_content
        (entries (snd (analyze_text example_env ''   '' ''2024-01-15'' alice example_state)))
     = [''yad doog'', ''   '']"
proof -
  have m: "py_max (emotion_model example_env ''   '') = Inr 0.5" by code_simp
  have i: "py_index (emotion_model example_env ''   '') 0.5 = Inr 27" by code_simp
  have d: "strptime example_env ''2024-01-15'' = Some 738900"
    unfolding example_env_def by code_simp
  have l: "dict_get EMOTION_LABELS 27 ''neutral'' = ''neutral''" by code_simp
  have c: "cipher_suite example_env ''   '' = ''   ''" by code_simp
  have r: "round_percent example_env (1 / 2) = 50" by (simp add: example_env_def)
  have n: "insight_logic ''neutral'' = ''Take a moment to breathe.''" by code_simp
  show ?thesis
    unfolding analyze_text_def process_entry_logic_eq[OF m i d]
    by (simp add: l c r n Let_def MAXORDINAL_def example_state_def example_entry_def
          alice_def next_id_def)
qed

subsection \<open>What the entry pipeline leaves alone\<close>

lemma process_entry_logic_frame:
  "users (snd (process_entry_logic env txt date_str user st)) = users st
   \<and> files (snd (process_entry_logic env txt date_str user st)) = files st
   \<and> (entries (snd (process_entry_logic env txt date_str user st)) = entries st
        \<or> (\<exists>e. entries (snd (process_entry_logic env txt date_str user st)) = entries st @ [e]
                \<and> user_id e = id_User user))"
  by (simp add: process_entry_logic_def Let_def date_minus_days_def
        split: sum.splits option.splits)

lemma transcribe_and_process_state:
  "snd (transcribe_and_process env p date_str user st) = st
   \<or> (\<exists>t. snd (transcribe_and_process env p date_str user st)
            = snd (process_entry_logic env t date_str user st))"
proof (cases "case files st p of None \<Rightarrow> Inl (FileNotFoundError p)
                | Some audio \<Rightarrow> whisper_model env audio")
  case (Inl e)
  then show ?thesis by (simp add: transcribe_and_process_def)
next
  case (Inr result)
  let ?t = "strip (case result of None \<Rightarrow> '''' | Some t \<Rightarrow> t)"
  show ?thesis
  proof (cases "?t = ''''")
    case True
    then show ?thesis using Inr by (simp add: transcribe_and_process_def Let_def)
  next
    case False
    obtain r st' where r: "process_entry_logic env ?t date_str user st = (r, st')"
      by (cases "process_entry_logic env ?t date_str user st")
    have "snd (transcribe_and_process env p date_str user st) = st'"
      using Inr False r by (cases r) (simp_all add: transcribe_and_process_def Let_def)
    then have "snd (transcribe_and_process env p date_str user st)
            = snd (process_entry_logic env ?t date_str user st)"
      using r by simp
    then show ?thesis by blast
  qed
qed

lemma transcribe_and_process_frame:
  "users (snd (transcribe_and_process env p date_str user st)) = users st
   \<and> files (snd (transcribe_and_process env p date_str user st)) = files st
   \<and> (entries (snd (transcribe_and_process env p date_str user st)) = entries st
        \<or> (\<exists>e. entries (snd (transcribe_and_process env p date_str user st)) = entries st @ [e]
                \<and> user_id e = id_User user))"
  using transcribe_and_process_state[of env p date_str user st]
proof
  assume "snd (transcribe_and_process env p date_str user st) = st"
  then show ?thesis by simp
next
  assume "\<exists>t. snd (transcribe_and_process env p date_str user st)
            = snd (process_entry_logic env t date_str user st)"
  then obtain t where "snd (transcribe_and_process env p date_str user st)
            = snd (process_entry_logic env t date_str user st)" by blast
  then show ?thesis using process_entry_logic_frame[of env t date_str user st] by simp
qed

lemma cleanup_frame:
  "users (cleanup env p st) = users st \<and> entries (cleanup env p st) = entries st"
  by (simp add: cleanup_def)

lemma analyze_audio_frame:
  "users (snd (analyze_audio env upload date_str user st)) = users st
   \<and> (entries (snd (analyze_audio env upload date_str user st)) = entries st
        \<or> (\<exists>e. entries (snd (analyze_audio env upload date_str user st)) = entries st @ [e]
                \<and> user_id e = id_User user))"
proof (cases "NamedTemporaryFile env (files st) (upload_suffix upload)")
  case (Inl e)
  then show ?thesis by (simp add: analyze_audio_def Let_def)
next
  case (Inr p)
  show ?thesis
  proof (cases "copy_raises env (file_bytes upload)")
    case (Some failure)
    then show ?thesis using Inr
      by (cases failure) (simp add: analyze_audio_def Let_def)
  next
    case None
    let ?st1 = "st\<lparr>files := (files st)(p \<mapsto> file_bytes upload)\<rparr>"
    have "snd (analyze_audio env upload date_str user st)
            = cleanup env p (snd (transcribe_and_process env p date_str user ?st1))"
      using Inr None by (simp add: analyze_audio_def Let_def split: prod.splits)
    then show ?thesis
      using transcribe_and_process_frame[of env p date_str user ?st1] cleanup_frame
      by simp
  qed
qed

subsection \<open>History\<close>

lemma get_history_append_other:
  assumes "user_id e \<noteq> id_User A"
  shows "fst (get_history A (st\<lparr>entries := entries st @ [e]\<rparr>)) = fst (get_history A st)"
  using assms by (simp add: get_history_def Let_def)

lemma get_history_entries_cong:
  assumes "entries st' = entries st \<or> (\<exists>e. entries st' = entries st @ [e] \<and> user_id e = id_User B)"
    and "id_User A \<noteq> id_User B"
  shows "fst (get_history A st') = fst (get_history A st)"
  using assms by (auto simp: get_history_def Let_def)

text \<open>
  Claim C1. The history of an account A is the list of (date, emotion) of exactly the
  rows whose owner is A, none of them owned by a different account B, in ascending order
  of date; the call returns the state it was given; and a row that B creates, through
  the text or the audio path, leaves the history of A as it was.
\<close>

theorem get_history_scoped:
  assumes "id_User A \<noteq> id_User B"
  shows "snd (get_history A st) = st
     \<and> (\<exists>es. fst (get_history A st) = map (\<lambda>e. (date e, emotion_primary e)) es
            \<and> mset es = filter_mset (\<lambda>e. user_id e = id_User A) (mset (entries st))
            \<and> (\<forall>e\<in>set es. user_id e = id_User A \<and> user_id e \<noteq> id_User B))
     \<and> sorted (map fst (fst (get_history A st)))
     \<and> fst (get_history A (snd (analyze_text env txt date_str B st))) = fst (get_history A st)
     \<and> fst (get_history A (snd (analyze_audio env upload date_str B st)))
         = fst (get_history A st)"
proof -
  let ?es = "sort_key date (filter (\<lambda>e. user_id e = id_User A) (entries st))"
  have 1: "snd (get_history A st) = st" by (simp add: get_history_def Let_def)
  have "fst (get_history A st) = map (\<lambda>e. (date e, emotion_primary e)) ?es"
    by (simp add: get_history_def Let_def)
  moreover have "mset ?es = filter_mset (\<lambda>e. user_id e = id_User A) (mset (entries st))"
    by simp
  moreover have "\<forall>e\<in>set ?es. user_id e = id_User A \<and> user_id e \<noteq> id_User B"
    using assms by simp
  ultimately have 2: "\<exists>es. fst (get_history A st) = map (\<lambda>e. (date e, emotion_primary e)) es
            \<and> mset es = filter_mset (\<lambda>e. user_id e = id_User A) (mset (entries st))
            \<and> (\<forall>e\<in>set es. user_id e = id_User A \<and> user_id e \<noteq> id_User B)"
    by blast
  have "map fst (fst (get_history A st)) = map date ?es"
    by (simp add: get_history_def Let_def comp_def)
  then have 3: "sorted (map fst (fst (get_history A st)))"
    by (simp only: sorted_sort_key)
  have 4: "fst (get_history A (snd (analyze_text env txt date_str B st))) = fst (get_history A st)"
    using process_entry_logic_frame[of env "txt" date_str B st] assms
    unfolding analyze_text_def
    by (intro get_history_entries_cong[where B = B]) simp_all
  have 5: "fst (get_history A (snd (analyze_audio env upload date_str B st)))
         = fst (get_history A st)"
    using analyze_audio_frame[of env upload date_str B st] assms
    by (intro get_history_entries_cong[where B = B]) simp_all
  from 1 2 3 4 5 show ?thesis by blast
qed

theorem get_history_scoped_witness:
  "id_User alice \<noteq> id_User bob
   \<and> get_history alice example_history = ([(738700, ''fear''), (738850, ''joy'')], example_history)
   \<and> fst (get_history alice
        (snd (analyze_text example_env ''I am so angry today'' ''2024-01-15'' bob example_history)))
       = [(738700, ''fear''), (738850, ''joy'')]
   \<and> fst (get_history alice
        (snd (analyze_audio example_env \<lparr>filename = Some ''memo.mp3'', file_bytes = ''so so''\<rparr>
                ''2024-01-15'' bob example_history)))
       = [(738700, ''fear''), (738850, ''joy'')]
   \<and> emotion_primary (last (entries
        (snd (analyze_text example_env ''I am so angry today'' ''2024-01-15'' bob example_history))))
       = ''anger''"
proof -
  have h: "id_User alice \<noteq> id_User bob" by (simp add: alice_def bob_def)
  have g: "get_history alice example_history
             = ([(738700, ''fear''), (738850, ''joy'')], example_history)"
    by (simp add: get_history_def Let_def example_history_def alice_def)
  have e: "emotion_primary (last (entries
        (snd (analyze_text example_env ''I am so angry today'' ''2024-01-15'' bob example_history))))
       = ''anger''"
    by code_simp
  from get_history_scoped[OF h, of example_history example_env "''I am so angry today''"
      "''2024-01-15''" "\<lparr>filename = Some ''memo.mp3'', file_bytes = ''so so''\<rparr>"] h g e
  show ?thesis by simp
qed

subsection \<open>Registration\<close>

lemma next_id_fresh: "next_id ids \<notin> set ids"
proof -
  have "\<forall>i\<in>set ids. i \<le> foldr max ids 0"
    by (induction ids) (auto simp: max_def)
  then show ?thesis unfolding next_id_def by fastforce
qed

lemma find_snoc_new:
  "\<forall>x\<in>set xs. \<not> P x \<Longrightarrow> P y \<Longrightarrow> find P (xs @ [y]) = Some y"
  by (induction xs) auto

lemma signup_fresh:
  assumes "\<forall>u\<in>set (users st). username u \<noteq> username' d \<and> email u \<noteq> email' d"
  shows "signup env d st =
    (Inr ''User created successfully'',
     st\<lparr>users := users st @
        [\<lparr>id_User = next_id (map id_User (users st)), username = username' d,
          email = email' d, hashed_password = pwd_hash env (password' d)\<rparr>]\<rparr>)"
proof -
  have "find (\<lambda>u. username u = username' d) (users st) = None"
    and "find (\<lambda>u. email u = email' d) (users st) = None"
    using assms by (auto simp: find_None_iff)
  then show ?thesis by (simp add: signup_def Let_def)
qed

lemma signup_username_taken:
  assumes "\<exists>u\<in>set (users st). username u = username' d"
  shows "signup env d st = (Inl (HTTPException 400 (Detail ''Username already taken'')), st)"
proof -
  from assms have "find (\<lambda>u. username u = username' d) (users st) \<noteq> None"
    by (auto simp: find_None_iff)
  then obtain ex where ex: "find (\<lambda>u. username u = username' d) (users st) = Some ex"
    by blast
  then have "username ex = username' d" by (auto simp: find_Some_iff)
  with ex show ?thesis by (simp add: signup_def Let_def)
qed

lemma signup_email_taken:
  assumes "\<exists>u\<in>set (users st). email u = email' d"
    and "\<forall>u\<in>set (users st). username u \<noteq> username' d"
  shows "signup env d st = (Inl (HTTPException 400 (Detail ''Email already registered'')), st)"
proof -
  have n: "find (\<lambda>u. username u = username' d) (users st) = None"
    using assms(2) by (auto simp: find_None_iff)
  from assms(1) have "find (\<lambda>u. email u = email' d) (users st) \<noteq> None"
    by (auto simp: find_None_iff)
  then obtain ex where ex: "find (\<lambda>u. email u = email' d) (users st) = Some ex"
    by blast
  then have "email ex = email' d \<and> ex \<in> set (users st)" by (auto simp: find_Some_iff)
  then have "email ex = email' d \<and> username ex \<noteq> username' d" using assms(2) by blast
  with n ex show ?thesis by (simp add: signup_def Let_def)
qed

text \<open>
  Claim C5. A registration whose username and email are both new succeeds and adds one
  account under a new key. From then on a registration under the same username fails
  with "Username already taken" whatever email it brings, and a registration with the
  same email under another username, one that no account has, fails with "Email already
  registered". The same holds for any account of the table: a taken username gives the
  error for the username whatever the email, and a registered email with a username that
  is not taken gives the error for the email. A refused registration changes nothing.
\<close>

theorem signup_duplicates:
  "((\<forall>u\<in>set (users st). username u \<noteq> username' d \<and> email u \<noteq> email' d) \<longrightarrow>
       (\<exists>nu. signup env d st = (Inr ''User created successfully'', st\<lparr>users := users st @ [nu]\<rparr>)
            \<and> username nu = username' d \<and> email nu = email' d
            \<and> hashed_password nu = pwd_hash env (password' d)
            \<and> id_User nu \<notin> id_User ` set (users st))
       \<and> (\<forall>d2. username' d2 = username' d \<longrightarrow>
              signup env d2 (snd (signup env d st))
                = (Inl (HTTPException 400 (Detail ''Username already taken'')),
                   snd (signup env d st)))
       \<and> (\<forall>d2. email' d2 = email' d \<and> username' d2 \<noteq> username' d
                \<and> (\<forall>u\<in>set (users st). username u \<noteq> username' d2) \<longrightarrow>
              signup env d2 (snd (signup env d st))
                = (Inl (HTTPException 400 (Detail ''Email already registered'')),
                   snd (signup env d st))))
   \<and> ((\<exists>u\<in>set (users st). username u = username' d) \<longrightarrow>
         signup env d st = (Inl (HTTPException 400 (Detail ''Username already taken'')), st))
   \<and> ((\<exists>u\<in>set (users st). email u = email' d)
         \<and> (\<forall>u\<in>set (users st). username u \<noteq> username' d) \<longrightarrow>
         signup env d st = (Inl (HTTPException 400 (Detail ''Email already registered'')), st))"
proof (intro conjI impI allI)
  assume fresh: "\<forall>u\<in>set (users st). username u \<noteq> username' d \<and> email u \<noteq> email' d"
  let ?nu = "\<lparr>id_User = next_id (map id_User (users st)), username = username' d,
          email = email' d, hashed_password = pwd_hash env (password' d)\<rparr>"
  note s = signup_fresh[OF fresh, of env]
  have "id_User ?nu \<notin> id_User ` set (users st)"
    using next_id_fresh[of "map id_User (users st)"] by simp
  with s show "\<exists>nu. signup env d st = (Inr ''User created successfully'', st\<lparr>users := users st @ [nu]\<rparr>)
            \<and> username nu = username' d \<and> email nu = email' d
            \<and> hashed_password nu = pwd_hash env (password' d)
            \<and> id_User nu \<notin> id_User ` set (users st)"
    by (intro exI[of _ ?nu]) simp
next
  fix d2 :: UserCreate
  assume fresh: "\<forall>u\<in>set (users st). username u \<noteq> username' d \<and> email u \<noteq> email' d"
    and same: "username' d2 = username' d"
  let ?nu = "\<lparr>id_User = next_id (map id_User (users st)), username = username' d,
          email = email' d, hashed_password = pwd_hash env (password' d)\<rparr>"
  let ?st1 = "st\<lparr>users := users st @ [?nu]\<rparr>"
  note s = signup_fresh[OF fresh, of env]
  have "\<exists>u\<in>set (users ?st1). username u = username' d2" using same by simp
  from signup_username_taken[OF this, of env]
  show "signup env d2 (snd (signup env d st))
                = (Inl (HTTPException 400 (Detail ''Username already taken'')),
                   snd (signup env d st))"
    by (simp add: s)
next
  fix d2 :: UserCreate
  assume fresh: "\<forall>u\<in>set (users st). username u \<noteq> username' d \<and> email u \<noteq> email' d"
    and a: "email' d2 = email' d \<and> username' d2 \<noteq> username' d
                \<and> (\<forall>u\<in>set (users st). username u \<noteq> username' d2)"
  let ?nu = "\<lparr>id_User = next_id (map id_User (users st)), username = username' d,
          email = email' d, hashed_password = pwd_hash env (password' d)\<rparr>"
  let ?st1 = "st\<lparr>users := users st @ [?nu]\<rparr>"
  note s = signup_fresh[OF fresh, of env]
  have 1: "\<exists>u\<in>set (users ?st1). email u = email' d2" using a by simp
  have 2: "\<forall>u\<in>set (users ?st1). username u \<noteq> username' d2" using a by auto
  from signup_email_taken[OF 1 2, of env]
  show "signup env d2 (snd (signup env d st))
                = (Inl (HTTPException 400 (Detail ''Email already registered'')),
                   snd (signup env d st))"
    by (simp add: s)
next
  assume "\<exists>u\<in>set (users st). username u = username' d"
  then show "signup env d st = (Inl (HTTPException 400 (Detail ''Username already taken'')), st)"
    by (rule signup_username_taken)
next
  assume "(\<exists>u\<in>set (users st). email u = email' d)
         \<and> (\<forall>u\<in>set (users st). username u \<noteq> username' d)"
  then show "signup env d st = (Inl (HTTPException 400 (Detail ''Email already registered'')), st)"
    using signup_email_taken by blast
qed

theorem signup_duplicates_witness:
  "((\<exists>nu. signup example_env
            \<lparr>username' = ''bob'', email' = ''bob@example.org'', password' = ''builder''\<rparr>
            (example_state\<lparr>users := [alice]\<rparr>)
          = (Inr ''User created successfully'',
             example_state\<lparr>users := [alice]\<rparr>
               \<lparr>users := users (example_state\<lparr>users := [alice]\<rparr>) @ [nu]\<rparr>)
        \<and> username nu = username' \<lparr>username' = ''bob'', email' = ''bob@example.org'', password' = ''builder''\<rparr>
        \<and> email nu = email' \<lparr>username' = ''bob'', email' = ''bob@example.org'', password' = ''builder''\<rparr>
        \<and> hashed_password nu = pwd_hash example_env
              (password' \<lparr>username' = ''bob'', email' = ''bob@example.org'', password' = ''builder''\<rparr>)
        \<and> id_User nu \<notin> id_User ` set (users (example_state\<lparr>users := [alice]\<rparr>)))
    \<and> signup example_env
          \<lparr>username' = ''bob'', email' = ''alice@example.org'', password' = ''other''\<rparr>
          (snd (signup example_env
                 \<lparr>username' = ''bob'', email' = ''bob@example.org'', password' = ''builder''\<rparr>
                 (example_state\<lparr>users := [alice]\<rparr>)))
        = (Inl (HTTPException 400 (Detail ''Username already taken'')),
           snd (signup example_env
                 \<lparr>username' = ''bob'', email' = ''bob@example.org'', password' = ''builder''\<rparr>
                 (example_state\<lparr>users := [alice]\<rparr>)))
    \<and> signup example_env
          \<lparr>username' = ''robert'', email' = ''bob@example.org'', password' = ''other''\<rparr>
          (snd (signup example_env
                 \<lparr>username' = ''bob'', email' = ''bob@example.org'', password' = ''builder''\<rparr>
                 (example_state\<lparr>users := [alice]\<rparr>)))
        = (Inl (HTTPException 400 (Detail ''Email already registered'')),
           snd (signup example_env
                 \<lparr>username' = ''bob'', email' = ''bob@example.org'', password' = ''builder''\<rparr>
                 (example_state\<lparr>users := [alice]\<rparr>))))
   \<and> signup example_env
         \<lparr>username' = ''bob'', email' = ''alice@example.org'', password' = ''builder''\<rparr>
         example_state
       = (Inl (HTTPException 400 (Detail ''Username already taken'')), example_state)
   \<and> signup example_env
         \<lparr>username' = ''carol'', email' = ''alice@example.org'', password' = ''secret''\<rparr>
         example_state
       = (Inl (HTTPException 400 (Detail ''Email already registered'')), example_state)"
proof -
  let ?st0 = "example_state\<lparr>users := [alice]\<rparr>"
  let ?d1 = "\<lparr>username' = ''bob'', email' = ''bob@example.org'', password' = ''builder''\<rparr>"
  let ?d1a = "\<lparr>username' = ''bob'', email' = ''alice@example.org'', password' = ''other''\<rparr>"
  let ?d1b = "\<lparr>username' = ''robert'', email' = ''bob@example.org'', password' = ''other''\<rparr>"
  let ?d2 = "\<lparr>username' = ''bob'', email' = ''alice@example.org'', password' = ''builder''\<rparr>"
  let ?d3 = "\<lparr>username' = ''carol'', email' = ''alice@example.org'', password' = ''secret''\<rparr>"
  have f1: "\<forall>u\<in>set (users ?st0). username u \<noteq> username' ?d1 \<and> email u \<noteq> email' ?d1"
    by (simp add: alice_def)
  have f1a: "username' ?d1a = username' ?d1" by simp
  have f1b: "email' ?d1b = email' ?d1 \<and> username' ?d1b \<noteq> username' ?d1
                \<and> (\<forall>u\<in>set (users ?st0). username u \<noteq> username' ?d1b)"
    by (simp add: alice_def)
  have f2: "\<exists>u\<in>set (users example_state). username u = username' ?d2"
    by (simp add: example_state_def bob_def)
  have f3: "(\<exists>u\<in>set (users example_state). email u = email' ?d3)
         \<and> (\<forall>u\<in>set (users example_state). username u \<noteq> username' ?d3)"
    by (simp add: example_state_def alice_def bob_def)
  note t1 = signup_duplicates[of ?st0 ?d1 example_env, THEN conjunct1, THEN mp, OF f1]
  note t1a = t1[THEN conjunct2, THEN conjunct1, THEN spec, of ?d1a, THEN mp, OF f1a]
  note t1b = t1[THEN conjunct2, THEN conjunct2, THEN spec, of ?d1b, THEN mp, OF f1b]
  note t2 = signup_duplicates[of example_state ?d2 example_env, THEN conjunct2, THEN conjunct1,
      THEN mp, OF f2]
  note t3 = signup_duplicates[of example_state ?d3 example_env, THEN conjunct2, THEN conjunct2,
      THEN mp, OF f3]
  show ?thesis
    by (intro conjI t1[THEN conjunct1] t1a t1b t2 t3)
qed

subsection \<open>Session tokens\<close>






subsection \<open>The temporary file of the audio path\<close>

lemma NamedTemporaryFile_fresh:
  assumes "NamedTemporaryFile env fs suffix = Inr p"
  shows "fs p = None \<and> (\<exists>name\<in>set (tmp_names env). p = tmpdir env @ ''/tmp'' @ name @ suffix)"
proof -
  from assms have "find (\<lambda>p. fs p = None)
      (map (\<lambda>name. tmpdir env @ ''/tmp'' @ name @ suffix) (tmp_names env)) = Some p"
    by (simp add: NamedTemporaryFile_def split: option.splits if_splits)
  then have "fs p = None \<and> p \<in> set (map (\<lambda>name. tmpdir env @ ''/tmp'' @ name @ suffix) (tmp_names env))"
    by (auto simp: find_Some_iff)
  then show ?thesis by auto
qed


lemma process_entry_logic_remove_raises:
  "process_entry_logic (env\<lparr>remove_raises := rr\<rparr>) t date_str user st
     = process_entry_logic env t date_str user st"
  by (simp add: process_entry_logic_def Let_def cong: sum.case_cong option.case_cong)

lemma transcribe_and_process_remove_raises:
  "transcribe_and_process (env\<lparr>remove_raises := rr\<rparr>) p date_str user st
     = transcribe_and_process env p date_str user st"
  by (simp add: transcribe_and_process_def process_entry_logic_remove_raises Let_def
        cong: sum.case_cong option.case_cong if_cong)

lemma NamedTemporaryFile_remove_raises:
  "NamedTemporaryFile (env\<lparr>remove_raises := rr\<rparr>) fs suffix = NamedTemporaryFile env fs suffix"
  by (simp add: NamedTemporaryFile_def cong: option.case_cong if_cong)

lemma analyze_audio_created:
  assumes "NamedTemporaryFile env (files st) (upload_suffix upload) = Inr p"
    and "copy_raises env (file_bytes upload) = None"
  shows "analyze_audio env upload date_str user st =
    ((case fst (transcribe_and_process env p date_str user
                  (st\<lparr>files := (files st)(p \<mapsto> file_bytes upload)\<rparr>)) of
        Inl e \<Rightarrow> Inl (HTTPException 500 (Str e))
      | Inr v \<Rightarrow> Inr v),
     cleanup env p (snd (transcribe_and_process env p date_str user
                  (st\<lparr>files := (files st)(p \<mapsto> file_bytes upload)\<rparr>))))"
  using assms by (simp add: analyze_audio_def Let_def split: prod.splits)

lemma analyze_audio_copy_failed:
  assumes "NamedTemporaryFile env (files st) (upload_suffix upload) = Inr p"
    and "copy_raises env (file_bytes upload) = Some (msg, written)"
  shows "analyze_audio env upload date_str user st =
    (Inl (OSError msg), st\<lparr>files := (files st)(p \<mapsto> written)\<rparr>)"
  using assms by (simp add: analyze_audio_def Let_def)

lemma analyze_audio_remove_raises:
  "fst (analyze_audio (env\<lparr>remove_raises := rr\<rparr>) upload date_str user st)
     = fst (analyze_audio env upload date_str user st)
   \<and> entries (snd (analyze_audio (env\<lparr>remove_raises := rr\<rparr>) upload date_str user st))
     = entries (snd (analyze_audio env upload date_str user st))
   \<and> users (snd (analyze_audio (env\<lparr>remove_raises := rr\<rparr>) upload date_str user st))
     = users (snd (analyze_audio env upload date_str user st))"
proof (cases "NamedTemporaryFile env (files st) (upload_suffix upload)")
  case (Inl e)
  then show ?thesis
    by (simp add: analyze_audio_def Let_def NamedTemporaryFile_remove_raises)
next
  case (Inr p)
  then have p': "NamedTemporaryFile (env\<lparr>remove_raises := rr\<rparr>) (files st) (upload_suffix upload) = Inr p"
    by (simp add: NamedTemporaryFile_remove_raises)
  show ?thesis
  proof (cases "copy_raises env (file_bytes upload)")
    case None
    then have "copy_raises (env\<lparr>remove_raises := rr\<rparr>) (file_bytes upload) = None" by simp
    from analyze_audio_created[OF p' this] analyze_audio_created[OF Inr None]
    show ?thesis
      by (simp add: transcribe_and_process_remove_raises cleanup_frame)
  next
    case (Some failure)
    obtain msg written where f: "failure = (msg, written)" by (cases failure)
    have "copy_raises (env\<lparr>remove_raises := rr\<rparr>) (file_bytes upload) = Some (msg, written)"
      using Some f by simp
    from analyze_audio_copy_failed[OF p' this]
      analyze_audio_copy_failed[OF Inr Some[unfolded f]]
    show ?thesis by simp
  qed
qed

lemma analyze_audio_files:
  assumes "NamedTemporaryFile env (files st) (upload_suffix upload) = Inr p"
    and "copy_raises env (file_bytes upload) = None"
  shows "files (snd (analyze_audio env upload date_str user st))
           = (if remove_raises env p then (files st)(p \<mapsto> file_bytes upload) else files st)"
proof -
  let ?st1 = "st\<lparr>files := (files st)(p \<mapsto> file_bytes upload)\<rparr>"
  let ?st2 = "snd (transcribe_and_process env p date_str user ?st1)"
  have f2: "files ?st2 = (files st)(p \<mapsto> file_bytes upload)"
    using transcribe_and_process_frame[of env p date_str user ?st1] by simp
  have fresh: "files st p = None"
    using NamedTemporaryFile_fresh[OF assms(1)] by simp
  have "((files st)(p \<mapsto> file_bytes upload))(p := None) = files st"
    using fresh by (simp add: fun_upd_idem)
  then show ?thesis
    by (simp add: analyze_audio_created[OF assms] cleanup_def f2)
qed

text \<open>
  What the \<open>try\<close> statement does guarantee. Once the upload has been copied, the file has
  a name that no file of the directory had, ending in the upload's extension (".webm"
  when the upload has none), and whatever the body of the \<open>try\<close> block does, the
  \<open>finally\<close> block removes it: afterwards the directory is as it was before the call.
  When the removal itself raises, the file stays and nothing else changes: the result or
  error of the call and the rows of the tables are the same as when the removal does not
  raise. When the file cannot be created, there is no file and the error leaves as it is.
\<close>

lemma temp_file_removed_after_copy:
  "(\<forall>e. NamedTemporaryFile env (files st) (upload_suffix upload) = Inl e \<longrightarrow>
        analyze_audio env upload date_str user st = (Inl e, st))
   \<and> (\<forall>p. NamedTemporaryFile env (files st) (upload_suffix upload) = Inr p \<longrightarrow>
        copy_raises env (file_bytes upload) = None \<longrightarrow>
        files st p = None
        \<and> (\<exists>name\<in>set (tmp_names env). p = tmpdir env @ ''/tmp'' @ name @ upload_suffix upload)
        \<and> (\<not> remove_raises env p \<longrightarrow>
              files (snd (analyze_audio env upload date_str user st)) = files st)
        \<and> (remove_raises env p \<longrightarrow>
              files (snd (analyze_audio env upload date_str user st))
                = (files st)(p \<mapsto> file_bytes upload)))
   \<and> (\<forall>rr. fst (analyze_audio (env\<lparr>remove_raises := rr\<rparr>) upload date_str user st)
               = fst (analyze_audio env upload date_str user st)
           \<and> entries (snd (analyze_audio (env\<lparr>remove_raises := rr\<rparr>) upload date_str user st))
               = entries (snd (analyze_audio env upload date_str user st))
           \<and> users (snd (analyze_audio (env\<lparr>remove_raises := rr\<rparr>) upload date_str user st))
               = users (snd (analyze_audio env upload date_str user st)))
   \<and> upload_suffix \<lparr>filename = None, file_bytes = b\<rparr> = ''.webm''
   \<and> upload_suffix \<lparr>filename = Some '''', file_bytes = b\<rparr> = ''.webm''
   \<and> (snd (splitext f) = '''' \<longrightarrow> upload_suffix \<lparr>filename = Some f, file_bytes = b\<rparr> = ''.webm'')
   \<and> (snd (splitext f) \<noteq> '''' \<longrightarrow>
         upload_suffix \<lparr>filename = Some f, file_bytes = b\<rparr> = snd (splitext f))"
proof -
  have 1: "\<forall>e. NamedTemporaryFile env (files st) (upload_suffix upload) = Inl e \<longrightarrow>
        analyze_audio env upload date_str user st = (Inl e, st)"
    by (simp add: analyze_audio_def Let_def)
  have 2: "\<forall>p. NamedTemporaryFile env (files st) (upload_suffix upload) = Inr p \<longrightarrow>
        copy_raises env (file_bytes upload) = None \<longrightarrow>
        files st p = None
        \<and> (\<exists>name\<in>set (tmp_names env). p = tmpdir env @ ''/tmp'' @ name @ upload_suffix upload)
        \<and> (\<not> remove_raises env p \<longrightarrow>
              files (snd (analyze_audio env upload date_str user st)) = files st)
        \<and> (remove_raises env p \<longrightarrow>
              files (snd (analyze_audio env upload date_str user st))
                = (files st)(p \<mapsto> file_bytes upload))"
    using NamedTemporaryFile_fresh[of env "files st" "upload_suffix upload"]
      analyze_audio_files[of env st upload _ date_str user]
    by simp
  have 3: "\<forall>rr. fst (analyze_audio (env\<lparr>remove_raises := rr\<rparr>) upload date_str user st)
               = fst (analyze_audio env upload date_str user st)
           \<and> entries (snd (analyze_audio (env\<lparr>remove_raises := rr\<rparr>) upload date_str user st))
               = entries (snd (analyze_audio env upload date_str user st))
           \<and> users (snd (analyze_audio (env\<lparr>remove_raises := rr\<rparr>) upload date_str user st))
               = users (snd (analyze_audio env upload date_str user st))"
    using analyze_audio_remove_raises by blast
  have s: "splitext ''recording.webm'' = (''recording'', ''.webm'')" by code_simp
  have 4: "upload_suffix \<lparr>filename = None, file_bytes = b\<rparr> = ''.webm''"
    by (simp add: upload_suffix_def Let_def s)
  have 5: "upload_suffix \<lparr>filename = Some '''', file_bytes = b\<rparr> = ''.webm''"
    by (simp add: upload_suffix_def Let_def s)
  have e: "splitext '''' = ('''', '''')" by code_simp
  have 6: "snd (splitext f) = '''' \<longrightarrow> upload_suffix \<lparr>filename = Some f, file_bytes = b\<rparr> = ''.webm''"
    by (simp add: upload_suffix_def Let_def s)
  have 7: "snd (splitext f) \<noteq> '''' \<longrightarrow>
         upload_suffix \<lparr>filename = Some f, file_bytes = b\<rparr> = snd (splitext f)"
    using e by (auto simp: upload_suffix_def Let_def)
  from 1 2 3 4 5 6 7 show ?thesis by (intro conjI)
qed

lemma temp_file_removed_after_copy_examples:
  "NamedTemporaryFile example_env (files example_state)
       (upload_suffix \<lparr>filename = Some ''memo.mp3'', file_bytes = ''so so''\<rparr>)
     = Inr ''/tmp/tmpa1b2c3d4.mp3''
   \<and> files example_state ''/tmp/tmpa1b2c3d4.mp3'' = None
   \<and> (case fst (analyze_audio example_env \<lparr>filename = Some ''memo.mp3'', file_bytes = ''so so''\<rparr>
                   ''2024-01-15'' alice example_state) of
          Inr r \<Rightarrow> emotion r = ''amusement'' \<and> transcription r = ''so so'' \<and> is_audio r
        | Inl e \<Rightarrow> False)
   \<and> files (snd (analyze_audio example_env \<lparr>filename = Some ''memo.mp3'', file_bytes = ''so so''\<rparr>
                   ''2024-01-15'' alice example_state)) = files example_state
   \<and> fst (analyze_audio example_env \<lparr>filename = None, file_bytes = ''   ''\<rparr>
             ''2024-01-15'' alice example_state)
       = Inl (HTTPException 500 (Str (HTTPException 400 (Detail ''Could not transcribe audio.''))))
   \<and> files (snd (analyze_audio example_env \<lparr>filename = None, file_bytes = ''   ''\<rparr>
                   ''2024-01-15'' alice example_state)) = files example_state
   \<and> fst (analyze_audio example_env \<lparr>filename = Some ''voice'', file_bytes = ''noise''\<rparr>
             ''2024-01-15'' alice example_state)
       = Inl (HTTPException 500 (Str (RuntimeError ''Failed to load audio'')))
   \<and> files (snd (analyze_audio example_env \<lparr>filename = Some ''voice'', file_bytes = ''noise''\<rparr>
                   ''2024-01-15'' alice example_state)) = files example_state
   \<and> remove_raises (example_env\<lparr>remove_raises := \<lambda>p. True\<rparr>) ''/tmp/tmpa1b2c3d4.webm''
   \<and> files (snd (analyze_audio (example_env\<lparr>remove_raises := \<lambda>p. True\<rparr>)
                   \<lparr>filename = Some ''voice'', file_bytes = ''noise''\<rparr>
                   ''2024-01-15'' alice example_state))
       = (files example_state)(''/tmp/tmpa1b2c3d4.webm'' \<mapsto> ''noise'')
   \<and> fst (analyze_audio (example_env\<lparr>remove_raises := \<lambda>p. True\<rparr>)
             \<lparr>filename = Some ''voice'', file_bytes = ''noise''\<rparr>
             ''2024-01-15'' alice example_state)
       = Inl (HTTPException 500 (Str (RuntimeError ''Failed to load audio'')))"
proof -
  let ?a = "\<lparr>filename = Some ''memo.mp3'', file_bytes = ''so so''\<rparr>"
  let ?b = "\<lparr>filename = None, file_bytes = ''   ''\<rparr>"
  let ?c = "\<lparr>filename = Some ''voice'', file_bytes = ''noise''\<rparr>"
  let ?env' = "example_env\<lparr>remove_raises := \<lambda>p. True\<rparr>"
  have sa: "upload_suffix ?a = ''.mp3''" by code_simp
  have sb: "upload_suffix ?b = ''.webm''" by code_simp
  have sc: "upload_suffix ?c = ''.webm''" by code_simp
  have na: "NamedTemporaryFile example_env (files example_state) (upload_suffix ?a)
              = Inr ''/tmp/tmpa1b2c3d4.mp3''"
    by (simp add: sa NamedTemporaryFile_def example_env_def example_state_def)
  have nb: "NamedTemporaryFile example_env (files example_state) (upload_suffix ?b)
              = Inr ''/tmp/tmpa1b2c3d4.webm''"
    by (simp add: sb NamedTemporaryFile_def example_env_def example_state_def)
  have nc: "NamedTemporaryFile example_env (files example_state) (upload_suffix ?c)
              = Inr ''/tmp/tmpa1b2c3d4.webm''"
    by (simp add: sc NamedTemporaryFile_def example_env_def example_state_def)
  have nc': "NamedTemporaryFile ?env' (files example_state) (upload_suffix ?c)
              = Inr ''/tmp/tmpa1b2c3d4.webm''"
    by (simp add: sc NamedTemporaryFile_def example_env_def example_state_def)
  have ca: "copy_raises example_env (file_bytes ?a) = None"
    and cb: "copy_raises example_env (file_bytes ?b) = None"
    and cc: "copy_raises example_env (file_bytes ?c) = None"
    and cc': "copy_raises ?env' (file_bytes ?c) = None"
    by (simp_all add: example_env_def)
  have ra: "\<not> remove_raises example_env ''/tmp/tmpa1b2c3d4.mp3''"
    and rb: "\<not> remove_raises example_env ''/tmp/tmpa1b2c3d4.webm''"
    by (simp_all add: example_env_def)
  have rc': "remove_raises ?env' ''/tmp/tmpa1b2c3d4.webm''" by simp
  note ta = temp_file_removed_after_copy[of example_env example_state ?a "''2024-01-15''" alice,
      THEN conjunct2, THEN conjunct1, rule_format, OF na ca]
  note tb = temp_file_removed_after_copy[of example_env example_state ?b "''2024-01-15''" alice,
      THEN conjunct2, THEN conjunct1, rule_format, OF nb cb]
  note tc = temp_file_removed_after_copy[of example_env example_state ?c "''2024-01-15''" alice,
      THEN conjunct2, THEN conjunct1, rule_format, OF nc cc]
  note tc' = temp_file_removed_after_copy[of ?env' example_state ?c "''2024-01-15''" alice,
      THEN conjunct2, THEN conjunct1, rule_format, OF nc' cc']
  note ti = temp_file_removed_after_copy[of example_env example_state ?c "''2024-01-15''" alice,
      THEN conjunct2, THEN conjunct2, THEN conjunct1, rule_format, of "\<lambda>p. True"]
  have 1: "files example_state ''/tmp/tmpa1b2c3d4.mp3'' = None" using ta by blast
  have 2: "files (snd (analyze_audio example_env ?a ''2024-01-15'' alice example_state))
             = files example_state" using ta ra by blast
  have 3: "files (snd (analyze_audio example_env ?b ''2024-01-15'' alice example_state))
             = files example_state" using tb rb by blast
  have 4: "files (snd (analyze_audio example_env ?c ''2024-01-15'' alice example_state))
             = files example_state" using tc rb by blast
  have 5: "files (snd (analyze_audio ?env' ?c ''2024-01-15'' alice example_state))
             = (files example_state)(''/tmp/tmpa1b2c3d4.webm'' \<mapsto> ''noise'')"
    using tc' rc' by simp
  have fa: "(case fst (analyze_audio example_env ?a ''2024-01-15'' alice example_state) of
          Inr r \<Rightarrow> emotion r = ''amusement'' \<and> transcription r = ''so so'' \<and> is_audio r
        | Inl e \<Rightarrow> False)"
    by code_simp
  have fb: "fst (analyze_audio example_env ?b ''2024-01-15'' alice example_state)
       = Inl (HTTPException 500 (Str (HTTPException 400 (Detail ''Could not transcribe audio.''))))"
    by code_simp
  have fc: "fst (analyze_audio example_env ?c ''2024-01-15'' alice example_state)
       = Inl (HTTPException 500 (Str (RuntimeError ''Failed to load audio'')))"
    by code_simp
  have fc': "fst (analyze_audio ?env' ?c ''2024-01-15'' alice example_state)
       = Inl (HTTPException 500 (Str (RuntimeError ''Failed to load audio'')))"
    using ti fc by simp
  show ?thesis
    by (intro conjI na 1 fa 2 fb 3 fc 4 rc' 5 fc')
qed

text \<open>
  Claim C9. The file is created and filled before the \<open>try\<close> statement begins. When the
  copy of the upload raises, the exception leaves \<open>analyze_audio\<close> as it is, the
  \<open>finally\<close> block never runs, and the file stays in the directory with the bytes
  written so far, whether a removal would have succeeded or not: on this way out the
  temporary file is not removed.
\<close>

theorem copy_failure_leaves_temp_file:
  assumes "NamedTemporaryFile env (files st) (upload_suffix upload) = Inr p"
    and "copy_raises env (file_bytes upload) = Some (msg, written)"
  shows "analyze_audio env upload date_str user st
           = (Inl (OSError msg), st\<lparr>files := (files st)(p \<mapsto> written)\<rparr>)
       \<and> files st p = None
       \<and> files (snd (analyze_audio env upload date_str user st)) p = Some written
       \<and> files (snd (analyze_audio (env\<lparr>remove_raises := \<lambda>q. False\<rparr>) upload date_str user st)) p
           = Some written"
proof -
  have p': "NamedTemporaryFile (env\<lparr>remove_raises := \<lambda>q. False\<rparr>) (files st) (upload_suffix upload)
              = Inr p"
    using assms(1) by (simp add: NamedTemporaryFile_remove_raises)
  have c': "copy_raises (env\<lparr>remove_raises := \<lambda>q. False\<rparr>) (file_bytes upload)
              = Some (msg, written)"
    using assms(2) by simp
  show ?thesis
    using NamedTemporaryFile_fresh[OF assms(1)]
    by (simp add: analyze_audio_copy_failed[OF assms] analyze_audio_copy_failed[OF p' c'])
qed

theorem copy_failure_leaves_temp_file_witness:
  "NamedTemporaryFile example_env (files example_state)
       (upload_suffix \<lparr>filename = Some ''voice.ogg'', file_bytes = ''a long recording''\<rparr>)
     = Inr ''/tmp/tmpa1b2c3d4.ogg''
   \<and> copy_raises example_env
        (file_bytes \<lparr>filename = Some ''voice.ogg'', file_bytes = ''a long recording''\<rparr>)
     = Some (''[Errno 28] No space left on device'', ''a long'')
   \<and> \<not> remove_raises example_env ''/tmp/tmpa1b2c3d4.ogg''
   \<and> analyze_audio example_env
        \<lparr>filename = Some ''voice.ogg'', file_bytes = ''a long recording''\<rparr>
        ''2024-01-15'' alice example_state
       = (Inl (OSError ''[Errno 28] No space left on device''),
          example_state\<lparr>files := (files example_state)(''/tmp/tmpa1b2c3d4.ogg'' \<mapsto> ''a long'')\<rparr>)
   \<and> files example_state ''/tmp/tmpa1b2c3d4.ogg'' = None
   \<and> files (snd (analyze_audio example_env
                   \<lparr>filename = Some ''voice.ogg'', file_bytes = ''a long recording''\<rparr>
                   ''2024-01-15'' alice example_state)) ''/tmp/tmpa1b2c3d4.ogg''
       = Some ''a long''"
proof -
  let ?u = "\<lparr>filename = Some ''voice.ogg'', file_bytes = ''a long recording''\<rparr>"
  have s: "upload_suffix ?u = ''.ogg''" by code_simp
  have h1: "NamedTemporaryFile example_env (files example_state) (upload_suffix ?u)
              = Inr ''/tmp/tmpa1b2c3d4.ogg''"
    by (simp add: s NamedTemporaryFile_def example_env_def example_state_def)
  have h2: "copy_raises example_env (file_bytes ?u)
              = Some (''[Errno 28] No space left on device'', ''a long'')"
    by (simp add: example_env_def)
  have r: "\<not> remove_raises example_env ''/tmp/tmpa1b2c3d4.ogg''"
    by (simp add: example_env_def)
  note t = copy_failure_leaves_temp_file[OF h1 h2, of "''2024-01-15''" alice]
  show ?thesis
    by (intro conjI h1 h2 r t[THEN conjunct1] t[THEN conjunct2, THEN conjunct1]
          t[THEN conjunct2, THEN conjunct2, THEN conjunct1])
qed

subsection \<open>Errors of the audio path and of the date\<close>

text \<open>
  Claim C2. The source raises \<open>HTTPException(status_code=400)\<close> for an empty transcription
  inside the \<open>try\<close> block whose \<open>except Exception\<close> clause catches it: what leaves
  \<open>analyze_audio\<close> is an \<open>HTTPException\<close> with status 500 whose detail is the text of the
  first one, not a client error. No row is stored.
\<close>

theorem empty_transcription_is_status_500:
  assumes "NamedTemporaryFile env (files st) (upload_suffix upload) = Inr p"
    and "copy_raises env (file_bytes upload) = None"
    and "whisper_model env (file_bytes upload) = Inr result"
    and "strip (case result of None \<Rightarrow> '''' | Some t \<Rightarrow> t) = ''''"
  shows "fst (analyze_audio env upload date_str user st)
           = Inl (HTTPException 500 (Str (HTTPException 400 (Detail ''Could not transcribe audio.''))))
       \<and> \<not> client_error (HTTPException 500
                             (Str (HTTPException 400 (Detail ''Could not transcribe audio.''))))
       \<and> client_error (HTTPException 400 (Detail ''Could not transcribe audio.''))
       \<and> entries (snd (analyze_audio env upload date_str user st)) = entries st
       \<and> users (snd (analyze_audio env upload date_str user st)) = users st"
proof -
  let ?st1 = "st\<lparr>files := (files st)(p \<mapsto> file_bytes upload)\<rparr>"
  have t: "transcribe_and_process env p date_str user ?st1
             = (Inl (HTTPException 400 (Detail ''Could not transcribe audio.'')), ?st1)"
    using assms(3,4) by (simp add: transcribe_and_process_def)
  show ?thesis
    by (simp add: analyze_audio_created[OF assms(1,2)] t cleanup_frame)
qed

theorem empty_transcription_is_status_500_witness:
  "NamedTemporaryFile example_env (files example_state)
       (upload_suffix \<lparr>filename = Some ''memo.webm'', file_bytes = '' ''\<rparr>)
     = Inr ''/tmp/tmpa1b2c3d4.webm''
   \<and> copy_raises example_env (file_bytes \<lparr>filename = Some ''memo.webm'', file_bytes = '' ''\<rparr>)
     = None
   \<and> whisper_model example_env (file_bytes \<lparr>filename = Some ''memo.webm'', file_bytes = '' ''\<rparr>)
     = Inr (Some '' '')
   \<and> strip (case Some '' '' of None \<Rightarrow> '''' | Some t \<Rightarrow> t) = ''''
   \<and> fst (analyze_audio example_env \<lparr>filename = Some ''memo.webm'', file_bytes = '' ''\<rparr>
             ''2024-01-15'' alice example_state)
       = Inl (HTTPException 500 (Str (HTTPException 400 (Detail ''Could not transcribe audio.''))))
   \<and> \<not> client_error (HTTPException 500
                         (Str (HTTPException 400 (Detail ''Could not transcribe audio.''))))
   \<and> entries (snd (analyze_audio example_env \<lparr>filename = Some ''memo.webm'', file_bytes = '' ''\<rparr>
                     ''2024-01-15'' alice example_state)) = entries example_state"
proof -
  let ?u = "\<lparr>filename = Some ''memo.webm'', file_bytes = '' ''\<rparr>"
  have s: "upload_suffix ?u = ''.webm''" by code_simp
  have h1: "NamedTemporaryFile example_env (files example_state) (upload_suffix ?u)
              = Inr ''/tmp/tmpa1b2c3d4.webm''"
    by (simp add: s NamedTemporaryFile_def example_env_def example_state_def)
  have hc: "copy_raises example_env (file_bytes ?u) = None"
    by (simp add: example_env_def)
  have h2: "whisper_model example_env (file_bytes ?u) = Inr (Some '' '')"
    by (simp add: example_env_def)
  have h3: "strip (case Some '' '' of None \<Rightarrow> '''' | Some t \<Rightarrow> t) = ''''" by code_simp
  from empty_transcription_is_status_500[OF h1 hc h2 h3, of "''2024-01-15''" alice] h1 hc h2 h3
  show ?thesis by blast
qed




subsection \<open>The history window\<close>

lemma process_entry_logic_window:
  assumes "process_entry_logic env t date_str user st = (Inr r, st')"
  shows "\<exists>d. strptime env date_str = Some d
           \<and> history_count r =
               length (filter (\<lambda>e. user_id e = id_User user \<and> d - 90 \<le> date e) (entries st'))
           \<and> (\<exists>e. entries st' = entries st @ [e] \<and> user_id e = id_User user \<and> date e = d)
           \<and> 1 \<le> history_count r"
proof -
  from assms have ne: "emotion_model env t \<noteq> []"
    by (auto simp: process_entry_logic_def Let_def split: sum.splits list.splits)
  have "strptime env date_str \<noteq> None"
  proof
    assume "strptime env date_str = None"
    with assms show False
      by (auto simp: process_entry_logic_def Let_def split: sum.splits)
  qed
  then obtain d where d: "strptime env date_str = Some d" by blast
  let ?M = "Max (set (emotion_model env t))"
  have m: "py_max (emotion_model env t) = Inr ?M" using ne by (rule py_max_Max)
  have "?M \<in> set (emotion_model env t)" using ne by simp
  from py_index_first[OF this] obtain i where
    i: "py_index (emotion_model env t) ?M = Inr i" by blast
  note eq = process_entry_logic_eq[OF m i d, of user st]
  let ?e = "\<lparr>id_Entry = next_id (map id_Entry (entries st)), user_id = id_User user,
              date = d, encrypted_content = cipher_suite env t,
              emotion_primary = dict_get EMOTION_LABELS i ''neutral'', emotion_score = ?M\<rparr>"
  from assms eq have rng: "0 < d - 90 \<and> d - 90 \<le> MAXORDINAL"
    by (auto simp: Let_def split: if_splits)
  from assms eq rng have st': "st' = st\<lparr>entries := entries st @ [?e]\<rparr>"
    and hc: "history_count r =
       length (filter (\<lambda>e. user_id e = id_User user \<and> d - 90 \<le> date e) (entries st @ [?e]))"
    by (auto simp: Let_def)
  have a: "history_count r =
       length (filter (\<lambda>e. user_id e = id_User user \<and> d - 90 \<le> date e) (entries st'))"
    using hc st' by simp
  have b: "entries st' = entries st @ [?e] \<and> user_id ?e = id_User user \<and> date ?e = d"
    using st' by simp
  have c: "1 \<le> history_count r" using hc by simp
  from d a b c show ?thesis by blast
qed

lemma transcribe_and_process_ok:
  assumes "transcribe_and_process env p date_str user st = (Inr v, st')"
  shows "\<exists>t r. process_entry_logic env t date_str user st = (Inr r, st')
            \<and> history_count v = history_count r"
proof (cases "case files st p of None \<Rightarrow> Inl (FileNotFoundError p)
                | Some audio \<Rightarrow> whisper_model env audio")
  case (Inl e)
  with assms show ?thesis by (simp add: transcribe_and_process_def)
next
  case (Inr result)
  let ?t = "strip (case result of None \<Rightarrow> '''' | Some t \<Rightarrow> t)"
  show ?thesis
  proof (cases "?t = ''''")
    case True
    with assms Inr show ?thesis by (simp add: transcribe_and_process_def Let_def)
  next
    case False
    obtain r0 s0 where r0: "process_entry_logic env ?t date_str user st = (r0, s0)"
      by (cases "process_entry_logic env ?t date_str user st")
    show ?thesis
    proof (cases r0)
      case (Inl e)
      with assms Inr False r0 show ?thesis by (simp add: transcribe_and_process_def Let_def)
    next
      case (Inr r)
      with assms \<open>(case files st p of None \<Rightarrow> Inl (FileNotFoundError p)
                | Some audio \<Rightarrow> whisper_model env audio) = Inr result\<close> False r0
      have "s0 = st' \<and> history_count v = history_count r"
        by (auto simp: transcribe_and_process_def Let_def)
      with r0 Inr show ?thesis by blast
    qed
  qed
qed

text \<open>
  Claim C8. When the operation succeeds, on the text path or on the audio path,
  \<open>history_count\<close> is the number of rows of the caller, the new row among them, whose
  date is not before the entry's date minus 90 days; the new row counts, so the number is
  at least 1.
\<close>

theorem history_count_is_window:
  "(analyze_text env t date_str user st = (Inr r, st') \<longrightarrow>
      (\<exists>d. strptime env date_str = Some d
         \<and> history_count r =
             length (filter (\<lambda>e. user_id e = id_User user \<and> d - 90 \<le> date e) (entries st'))
         \<and> (\<exists>e. entries st' = entries st @ [e] \<and> user_id e = id_User user \<and> date e = d)
         \<and> 1 \<le> history_count r))
   \<and> (analyze_audio env upload date_str user st = (Inr ra, sta) \<longrightarrow>
      (\<exists>d. strptime env date_str = Some d
         \<and> history_count ra =
             length (filter (\<lambda>e. user_id e = id_User user \<and> d - 90 \<le> date e) (entries sta))
         \<and> (\<exists>e. entries sta = entries st @ [e] \<and> user_id e = id_User user \<and> date e = d)
         \<and> 1 \<le> history_count ra))"
proof (intro conjI impI)
  assume "analyze_text env t date_str user st = (Inr r, st')"
  then have "process_entry_logic env t date_str user st = (Inr r, st')"
    by (simp add: analyze_text_def)
  then show "\<exists>d. strptime env date_str = Some d
         \<and> history_count r =
             length (filter (\<lambda>e. user_id e = id_User user \<and> d - 90 \<le> date e) (entries st'))
         \<and> (\<exists>e. entries st' = entries st @ [e] \<and> user_id e = id_User user \<and> date e = d)
         \<and> 1 \<le> history_count r"
    by (rule process_entry_logic_window)
next
  assume a: "analyze_audio env upload date_str user st = (Inr ra, sta)"
  obtain p where p: "NamedTemporaryFile env (files st) (upload_suffix upload) = Inr p"
  proof (cases "NamedTemporaryFile env (files st) (upload_suffix upload)")
    case (Inl e)
    with a show ?thesis by (simp add: analyze_audio_def Let_def)
  next
    case (Inr p)
    then show ?thesis using that by blast
  qed
  have c: "copy_raises env (file_bytes upload) = None"
  proof (cases "copy_raises env (file_bytes upload)")
    case None
    then show ?thesis .
  next
    case (Some failure)
    obtain msg written where "failure = (msg, written)" by (cases failure)
    with Some have "copy_raises env (file_bytes upload) = Some (msg, written)" by simp
    from analyze_audio_copy_failed[OF p this, of date_str user] a show ?thesis by simp
  qed
  let ?st1 = "st\<lparr>files := (files st)(p \<mapsto> file_bytes upload)\<rparr>"
  obtain v st2 where tp: "transcribe_and_process env p date_str user ?st1 = (v, st2)"
    by (cases "transcribe_and_process env p date_str user ?st1")
  from a tp have v: "v = Inr ra" and sta: "sta = cleanup env p st2"
    by (auto simp: analyze_audio_created[OF p c] split: sum.splits)
  from transcribe_and_process_ok[OF tp[unfolded v]] obtain x r0 where
    r0: "process_entry_logic env x date_str user ?st1 = (Inr r0, st2)"
    and hc: "history_count ra = history_count r0" by blast
  from process_entry_logic_window[OF r0] obtain d where
    d: "strptime env date_str = Some d"
    and n: "history_count r0 =
             length (filter (\<lambda>e. user_id e = id_User user \<and> d - 90 \<le> date e) (entries st2))"
    and e: "\<exists>e. entries st2 = entries ?st1 @ [e] \<and> user_id e = id_User user \<and> date e = d"
    and one: "1 \<le> history_count r0"
    by blast
  have es: "entries sta = entries st2" by (simp add: sta cleanup_frame)
  have "history_count ra =
             length (filter (\<lambda>e. user_id e = id_User user \<and> d - 90 \<le> date e) (entries sta))"
    using hc n es by simp
  moreover have "\<exists>e. entries sta = entries st @ [e] \<and> user_id e = id_User user \<and> date e = d"
    using e es by simp
  moreover have "1 \<le> history_count ra" using hc one by simp
  ultimately show "\<exists>d. strptime env date_str = Some d
         \<and> history_count ra =
             length (filter (\<lambda>e. user_id e = id_User user \<and> d - 90 \<le> date e) (entries sta))
         \<and> (\<exists>e. entries sta = entries st @ [e] \<and> user_id e = id_User user \<and> date e = d)
         \<and> 1 \<le> history_count ra"
    using d by blast
qed

theorem history_count_is_window_witness:
  "analyze_text example_env ''good day'' ''2024-01-15'' bob example_state
     = (Inr \<lparr>emotion = ''neutral'', score = 50, insight = ''Take a moment to breathe.'',
             history_count = 1\<rparr>,
        example_state\<lparr>entries := [example_entry,
          \<lparr>id_Entry = 2, user_id = 2, date = 738900, encrypted_content = ''yad doog'',
            emotion_primary = ''neutral'', emotion_score = 0.5\<rparr>]\<rparr>)
   \<and> (\<exists>d. strptime example_env ''2024-01-15'' = Some d
           \<and> history_count \<lparr>emotion = ''neutral'', score = 50,
                  insight = ''Take a moment to breathe.'', history_count = 1\<rparr> =
               length (filter (\<lambda>e. user_id e = id_User bob \<and> d - 90 \<le> date e)
                 (entries (example_state\<lparr>entries := [example_entry,
                    \<lparr>id_Entry = 2, user_id = 2, date = 738900, encrypted_content = ''yad doog'',
                      emotion_primary = ''neutral'', emotion_score = 0.5\<rparr>]\<rparr>)))
           \<and> (\<exists>e. entries (example_state\<lparr>entries := [example_entry,
                    \<lparr>id_Entry = 2, user_id = 2, date = 738900, encrypted_content = ''yad doog'',
                      emotion_primary = ''neutral'', emotion_score = 0.5\<rparr>]\<rparr>)
                  = entries example_state @ [e] \<and> user_id e = id_User bob \<and> date e = d)
           \<and> 1 \<le> history_count \<lparr>emotion = ''neutral'', score = 50,
                  insight = ''Take a moment to breathe.'', history_count = 1\<rparr>)
   \<and> (\<exists>ra. analyze_audio example_env \<lparr>filename = Some ''memo.mp3'', file_bytes = ''so so''\<rparr>
               ''2024-01-15'' alice example_history
            = (Inr ra, snd (analyze_audio example_env
                              \<lparr>filename = Some ''memo.mp3'', file_bytes = ''so so''\<rparr>
                              ''2024-01-15'' alice example_history))
          \<and> history_count ra = 2
          \<and> (\<exists>d. strptime example_env ''2024-01-15'' = Some d
                \<and> history_count ra =
                    length (filter (\<lambda>e. user_id e = id_User alice \<and> d - 90 \<le> date e)
                      (entries (snd (analyze_audio example_env
                              \<lparr>filename = Some ''memo.mp3'', file_bytes = ''so so''\<rparr>
                              ''2024-01-15'' alice example_history))))
                \<and> (\<exists>e. entries (snd (analyze_audio example_env
                              \<lparr>filename = Some ''memo.mp3'', file_bytes = ''so so''\<rparr>
                              ''2024-01-15'' alice example_history))
                       = entries example_history @ [e] \<and> user_id e = id_User alice \<and> date e = d)
                \<and> 1 \<le> history_count ra))"
proof -
  let ?u = "\<lparr>filename = Some ''memo.mp3'', file_bytes = ''so so''\<rparr>"
  have m: "py_max (emotion_model example_env ''good day'') = Inr 0.5" by code_simp
  have i: "py_index (emotion_model example_env ''good day'') 0.5 = Inr 27" by code_simp
  have d: "strptime example_env ''2024-01-15'' = Some 738900"
    unfolding example_env_def by code_simp
  have l: "dict_get EMOTION_LABELS 27 ''neutral'' = ''neutral''" by code_simp
  have c: "cipher_suite example_env ''good day'' = ''yad doog''" by code_simp
  have r: "round_percent example_env (1 / 2) = 50" by (simp add: example_env_def)
  have n: "insight_logic ''neutral'' = ''Take a moment to breathe.''" by code_simp
  have h: "analyze_text example_env ''good day'' ''2024-01-15'' bob example_state
     = (Inr \<lparr>emotion = ''neutral'', score = 50, insight = ''Take a moment to breathe.'',
             history_count = 1\<rparr>,
        example_state\<lparr>entries := [example_entry,
          \<lparr>id_Entry = 2, user_id = 2, date = 738900, encrypted_content = ''yad doog'',
            emotion_primary = ''neutral'', emotion_score = 0.5\<rparr>]\<rparr>)"
    unfolding analyze_text_def process_entry_logic_eq[OF m i d]
    by (simp add: l c r n Let_def MAXORDINAL_def example_state_def example_entry_def
          bob_def next_id_def)
  note txt_part = history_count_is_window[of example_env "''good day''" "''2024-01-15''" bob
      example_state _ _ ?u, THEN conjunct1, THEN mp, OF h]
  have k: "(case fst (analyze_audio example_env ?u ''2024-01-15'' alice example_history) of
              Inr ra \<Rightarrow> history_count ra = 2 | Inl e \<Rightarrow> False)"
    by code_simp
  then obtain ra where
    ra: "fst (analyze_audio example_env ?u ''2024-01-15'' alice example_history) = Inr ra"
    and two: "history_count ra = 2"
    by (cases "fst (analyze_audio example_env ?u ''2024-01-15'' alice example_history)") auto
  have a: "analyze_audio example_env ?u ''2024-01-15'' alice example_history
            = (Inr ra, snd (analyze_audio example_env ?u ''2024-01-15'' alice example_history))"
    using ra by (simp add: prod_eq_iff)
  note audio_part = history_count_is_window[of example_env "''good day''" "''2024-01-15''" alice
      example_history _ _ ?u, THEN conjunct2, THEN mp, OF a]
  from a two audio_part have "\<exists>ra. analyze_audio example_env ?u ''2024-01-15'' alice example_history
            = (Inr ra, snd (analyze_audio example_env ?u ''2024-01-15'' alice example_history))
          \<and> history_count ra = 2
          \<and> (\<exists>d. strptime example_env ''2024-01-15'' = Some d
                \<and> history_count ra =
                    length (filter (\<lambda>e. user_id e = id_User alice \<and> d - 90 \<le> date e)
                      (entries (snd (analyze_audio example_env ?u ''2024-01-15'' alice example_history))))
                \<and> (\<exists>e. entries (snd (analyze_audio example_env ?u ''2024-01-15'' alice example_history))
                       = entries example_history @ [e] \<and> user_id e = id_User alice \<and> date e = d)
                \<and> 1 \<le> history_count ra)"
    by blast
  with h txt_part show ?thesis by (intro conjI)
qed

end
